theory Spec2Isabelle
  imports Complex_Main "HOL-Library.Sublist"
begin

section \<open>Python values\<close>

text \<open>
  The replication payload is decoded by \<open>json.loads\<close> into Python values. A JSON number
  with a fraction or an exponent becomes a float: every finite float is a rational, and
  the three constants \<open>Infinity\<close>, \<open>-Infinity\<close> and \<open>NaN\<close> that \<open>json.loads\<close> accepts
  are kept apart. \<open>JNull\<close> is Python's \<open>None\<close>. An object is an association list read
  with \<open>map_of\<close>.
\<close>

datatype pyfloat = Finite rat | PosInf | NegInf | NaN

datatype json =
    JNull
  | JBool bool
  | JInt int
  | JFloat pyfloat
  | JStr string
  | JArr "json list"
  | JObj "(string \<times> json) list"

text \<open>
  Exceptions are values. \<open>Raised msg\<close> is an \<open>Exception\<close> raised by a collaborator
  (a listener, a handler, a database client) whose \<open>str\<close> is \<open>msg\<close>.
\<close>

datatype exn =
    JSONDecodeError
  | TypeError
  | KeyError
  | IndexError
  | AttributeError
  | CDCError string
  | Raised string

definition bind_exn :: "exn + 'a \<Rightarrow> ('a \<Rightarrow> exn + 'b) \<Rightarrow> exn + 'b" where
  "bind_exn m f = (case m of Inl e \<Rightarrow> Inl e | Inr x \<Rightarrow> f x)"

text \<open>Truth value testing (\<open>if x\<close>, \<open>not x\<close>, \<open>x or y\<close>).\<close>

fun truthy :: "json \<Rightarrow> bool" where
  "truthy JNull = False"
| "truthy (JBool b) = b"
| "truthy (JInt i) = (i \<noteq> 0)"
| "truthy (JFloat f) = (f \<noteq> Finite 0)"
| "truthy (JStr s) = (s \<noteq> [])"
| "truthy (JArr xs) = (xs \<noteq> [])"
| "truthy (JObj kvs) = (kvs \<noteq> [])"

text \<open>\<open>k in x\<close> for a string \<open>k\<close>: key of a dict, element of a list, substring of a string.\<close>

fun py_in :: "string \<Rightarrow> json \<Rightarrow> exn + bool" where
  "py_in k (JObj kvs) = Inr (map_of kvs k \<noteq> None)"
| "py_in k (JArr xs) = Inr (JStr k \<in> set xs)"
| "py_in k (JStr s) = Inr (sublist k s)"
| "py_in k JNull = Inl TypeError"
| "py_in k (JBool b) = Inl TypeError"
| "py_in k (JInt i) = Inl TypeError"
| "py_in k (JFloat f) = Inl TypeError"

text \<open>\<open>x[k]\<close> for a string \<open>k\<close>.\<close>

fun py_getitem :: "json \<Rightarrow> string \<Rightarrow> exn + json" where
  "py_getitem (JObj kvs) k = (case map_of kvs k of None \<Rightarrow> Inl KeyError | Some v \<Rightarrow> Inr v)"
| "py_getitem JNull k = Inl TypeError"
| "py_getitem (JBool b) k = Inl TypeError"
| "py_getitem (JInt i) k = Inl TypeError"
| "py_getitem (JFloat f) k = Inl TypeError"
| "py_getitem (JStr s) k = Inl TypeError"
| "py_getitem (JArr xs) k = Inl TypeError"

text \<open>\<open>x[0]\<close>. The keys of a decoded object are strings, so \<open>0\<close> is never one of them.\<close>

fun py_index0 :: "json \<Rightarrow> exn + json" where
  "py_index0 (JArr []) = Inl IndexError"
| "py_index0 (JArr (x # xs)) = Inr x"
| "py_index0 (JStr []) = Inl IndexError"
| "py_index0 (JStr (c # s)) = Inr (JStr [c])"
| "py_index0 (JObj kvs) = Inl KeyError"
| "py_index0 JNull = Inl TypeError"
| "py_index0 (JBool b) = Inl TypeError"
| "py_index0 (JInt i) = Inl TypeError"
| "py_index0 (JFloat f) = Inl TypeError"

text \<open>\<open>x.get(k, default)\<close>: only a dict has the method.\<close>

fun py_get_default :: "json \<Rightarrow> string \<Rightarrow> json \<Rightarrow> exn + json" where
  "py_get_default (JObj kvs) k d = Inr (case map_of kvs k of None \<Rightarrow> d | Some v \<Rightarrow> v)"
| "py_get_default JNull k d = Inl AttributeError"
| "py_get_default (JBool b) k d = Inl AttributeError"
| "py_get_default (JInt i) k d = Inl AttributeError"
| "py_get_default (JFloat f) k d = Inl AttributeError"
| "py_get_default (JStr s) k d = Inl AttributeError"
| "py_get_default (JArr xs) k d = Inl AttributeError"

definition py_get :: "json \<Rightarrow> string \<Rightarrow> exn + json" where
  "py_get x k = py_get_default x k JNull"

text \<open>Iteration (\<open>for col in x\<close>): a dict yields its keys, a string its characters.\<close>

fun py_iter :: "json \<Rightarrow> exn + json list" where
  "py_iter (JArr xs) = Inr xs"
| "py_iter (JObj kvs) = Inr (map (\<lambda>kv. JStr (fst kv)) kvs)"
| "py_iter (JStr s) = Inr (map (\<lambda>c. JStr [c]) s)"
| "py_iter JNull = Inl TypeError"
| "py_iter (JBool b) = Inl TypeError"
| "py_iter (JInt i) = Inl TypeError"
| "py_iter (JFloat f) = Inl TypeError"

subsection \<open>Dictionaries built by the parser\<close>

text \<open>
  \<open>old_data\<close>, \<open>new_data\<close> and \<open>primary_key\<close> are dicts keyed by whatever the payload
  gives as a column name. A key must be hashable; \<open>True\<close>, \<open>1\<close> and \<open>1.0\<close> are the same
  key. Insertion order is kept, and storing under a key that is present replaces the
  value in place.
\<close>

type_synonym pydict = "(json \<times> json) list"

fun hashable :: "json \<Rightarrow> bool" where
  "hashable (JArr xs) = False"
| "hashable (JObj kvs) = False"
| "hashable JNull = True"
| "hashable (JBool b) = True"
| "hashable (JInt i) = True"
| "hashable (JFloat f) = True"
| "hashable (JStr s) = True"

fun key_norm :: "json \<Rightarrow> json" where
  "key_norm (JBool b) = JInt (if b then 1 else 0)"
| "key_norm (JFloat (Finite r)) = (if of_int \<lfloor>r\<rfloor> = r then JInt \<lfloor>r\<rfloor> else JFloat (Finite r))"
| "key_norm (JFloat PosInf) = JFloat PosInf"
| "key_norm (JFloat NegInf) = JFloat NegInf"
| "key_norm (JFloat NaN) = JFloat NaN"
| "key_norm JNull = JNull"
| "key_norm (JInt i) = JInt i"
| "key_norm (JStr s) = JStr s"
| "key_norm (JArr xs) = JArr xs"
| "key_norm (JObj kvs) = JObj kvs"

definition py_key_eq :: "json \<Rightarrow> json \<Rightarrow> bool" where
  "py_key_eq a b = (key_norm a = key_norm b)"

fun dict_set :: "pydict \<Rightarrow> json \<Rightarrow> json \<Rightarrow> pydict" where
  "dict_set [] k v = [(k, v)]"
| "dict_set ((k', v') # d) k v =
     (if py_key_eq k' k then (k', v) # d else (k', v') # dict_set d k v)"

fun dict_get :: "pydict \<Rightarrow> json \<Rightarrow> json option" where
  "dict_get [] k = None"
| "dict_get ((k', v') # d) k = (if py_key_eq k' k then Some v' else dict_get d k)"

section \<open>The change event (cdc/base.py)\<close>

datatype ChangeOperation = INSERT | UPDATE | DELETE | TRUNCATE | DDL

text \<open>A \<open>datetime\<close>, as microseconds since the epoch.\<close>

type_synonym datetime = int

text \<open>
  The dataclass declares \<open>table\<close> and \<open>schema\<close> as \<open>str\<close>, but nothing checks it: the
  parser stores whatever value the payload holds, so the fields are Python values here.
\<close>

record ChangeEvent =
  operation :: ChangeOperation
  table :: json
  schema :: json
  timestamp :: datetime
  database_type :: string
  old_data :: "pydict option"
  new_data :: "pydict option"
  primary_key :: "pydict option"
  ddl_statement :: "string option"
  transaction_id :: json
  lsn :: json
  position :: "string option"
  metadata :: "(string \<times> json) list"

section \<open>The PostgreSQL listener (cdc/postgres\_listener.py)\<close>

record PostgreSQLCDCListener =
  slot_name :: string
  publication_name :: string
  is_running :: bool
  current_position :: "string option"

subsection \<open>\<open>_parse_wal2json\<close>\<close>

text \<open>
  The envelope: \<open>if 'change' in data\<close>, an empty \<open>data['change']\<close> returns \<open>None\<close>
  (here \<open>Inr None\<close>), otherwise the change is \<open>data['change'][0]\<close>; a payload without
  the key is itself the change.
\<close>

definition select_change :: "json \<Rightarrow> exn + json option" where
  "select_change data =
     bind_exn (py_in ''change'' data) (\<lambda>wrapped.
       if wrapped then
         bind_exn (py_getitem data ''change'') (\<lambda>changes.
           if \<not> truthy changes then Inr None
           else bind_exn (py_index0 changes) (\<lambda>change. Inr (Some change)))
       else Inr (Some data))"

text \<open>\<open>action = change.get('action') or change.get('kind')\<close>\<close>

definition get_action :: "json \<Rightarrow> exn + json" where
  "get_action change =
     bind_exn (py_get change ''action'') (\<lambda>a.
       if truthy a then Inr a else py_get change ''kind'')"

text \<open>\<open>action_map.get(action)\<close>: the lookup hashes its argument.\<close>

definition action_map_get :: "json \<Rightarrow> exn + ChangeOperation option" where
  "action_map_get action =
     (if \<not> hashable action then Inl TypeError
      else if action = JStr ''I'' then Inr (Some INSERT)
      else if action = JStr ''U'' then Inr (Some UPDATE)
      else if action = JStr ''D'' then Inr (Some DELETE)
      else if action = JStr ''T'' then Inr (Some TRUNCATE)
      else Inr None)"

text \<open>The dict comprehension \<open>{col['name']: col.get('value') for col in cols}\<close>.\<close>

fun columns_dict :: "json list \<Rightarrow> pydict \<Rightarrow> exn + pydict" where
  "columns_dict [] acc = Inr acc"
| "columns_dict (col # cols) acc =
     (case py_getitem col ''name'' of
        Inl e \<Rightarrow> Inl e
      | Inr k \<Rightarrow>
          (case py_get col ''value'' of
             Inl e \<Rightarrow> Inl e
           | Inr v \<Rightarrow>
               if hashable k then columns_dict cols (dict_set acc k v) else Inl TypeError))"

text \<open>\<open>if key in change: {... for col in change[key]}\<close>, else \<open>None\<close>.\<close>

definition data_of :: "json \<Rightarrow> string \<Rightarrow> exn + pydict option" where
  "data_of change key =
     bind_exn (py_in key change) (\<lambda>present.
       if present then
         bind_exn (py_getitem change key) (\<lambda>cols.
           bind_exn (py_iter cols) (\<lambda>cs.
             bind_exn (columns_dict cs []) (\<lambda>d. Inr (Some d))))
       else Inr None)"

definition extract_pk_from_data :: "pydict \<Rightarrow> pydict option" where
  "extract_pk_from_data data =
     (case dict_get data (JStr ''id'') of
        Some v \<Rightarrow> Some [(JStr ''id'', v)]
      | None \<Rightarrow> None)"

text \<open>
  \<open>primary_key = None; if old_data: old_data.copy(); elif new_data: _extract_pk_from_data(new_data)\<close>.
  A dict is true when it is not empty.
\<close>

definition derive_primary_key :: "pydict option \<Rightarrow> pydict option \<Rightarrow> pydict option" where
  "derive_primary_key old new =
     (if old \<noteq> None \<and> old \<noteq> Some [] then old
      else if new \<noteq> None \<and> new \<noteq> Some [] then extract_pk_from_data (the new)
      else None)"

text \<open>
  The timestamp is \<open>datetime.now()\<close> unless the change has a \<open>timestamp\<close> that
  \<open>dateutil\<close> parses; \<open>date_parse\<close> is that library call, \<open>None\<close> when it raises (the
  bare \<open>except\<close> keeps the receipt time).
\<close>

definition event_timestamp :: "datetime \<Rightarrow> (json \<Rightarrow> datetime option) \<Rightarrow> json \<Rightarrow> exn + datetime" where
  "event_timestamp now date_parse change =
     bind_exn (py_in ''timestamp'' change) (\<lambda>present.
       if present then
         bind_exn (py_getitem change ''timestamp'') (\<lambda>ts.
           Inr (case date_parse ts of Some t \<Rightarrow> t | None \<Rightarrow> now))
       else Inr now)"

definition position_value :: "string option \<Rightarrow> json" where
  "position_value p = (case p of None \<Rightarrow> JNull | Some s \<Rightarrow> JStr s)"

text \<open>The body of the \<open>try\<close> after the change has been selected.\<close>

definition parse_change ::
  "datetime \<Rightarrow> (json \<Rightarrow> datetime option) \<Rightarrow> PostgreSQLCDCListener \<Rightarrow> json \<Rightarrow> json
     \<Rightarrow> exn + ChangeEvent option" where
  "parse_change now date_parse self data change =
     bind_exn (get_action change) (\<lambda>action.
       if action = JStr ''B'' \<or> action = JStr ''C'' then Inr None
       else bind_exn (action_map_get action) (\<lambda>operation.
         case operation of
           None \<Rightarrow> Inr None
         | Some op \<Rightarrow>
             bind_exn (py_get_default change ''schema'' (JStr ''public'')) (\<lambda>schema.
             bind_exn (py_get change ''table'') (\<lambda>table.
               if \<not> truthy table then Inr None
               else
                 bind_exn (data_of change ''columns'') (\<lambda>new_data.
                 bind_exn (data_of change ''identity'') (\<lambda>old_data.
                 bind_exn (event_timestamp now date_parse change) (\<lambda>ts.
                 bind_exn (py_get change ''lsn'') (\<lambda>l.
                 bind_exn (py_get data ''xid'') (\<lambda>xid.
                 bind_exn (py_get data ''nextlsn'') (\<lambda>nextlsn.
                   Inr (Some \<lparr>
                     operation = op,
                     table = table,
                     schema = schema,
                     timestamp = ts,
                     database_type = ''postgres'',
                     old_data = old_data,
                     new_data = new_data,
                     primary_key = derive_primary_key old_data new_data,
                     ddl_statement = None,
                     transaction_id = xid,
                     lsn = (if truthy l then l else position_value (current_position self)),
                     position = None,
                     metadata =
                       [(''publication'', JStr (publication_name self)),
                        (''slot'', JStr (slot_name self)),
                        (''plugin'', JStr ''wal2json''),
                        (''nextlsn'', nextlsn)]
                   \<rparr>)))))))))))"

definition parse_body ::
  "datetime \<Rightarrow> (json \<Rightarrow> datetime option) \<Rightarrow> PostgreSQLCDCListener \<Rightarrow> json
     \<Rightarrow> exn + ChangeEvent option" where
  "parse_body now date_parse self data =
     bind_exn (select_change data) (\<lambda>sel.
       case sel of
         None \<Rightarrow> Inr None
       | Some change \<Rightarrow> parse_change now date_parse self data change)"

text \<open>
  \<open>_parse_wal2json\<close> itself. \<open>loads\<close> is \<open>json.loads\<close>, \<open>None\<close> when it raises
  \<open>JSONDecodeError\<close>. Both handlers of the \<open>try\<close> return \<open>None\<close>, so no exception
  leaves the method: the result is \<open>Inr\<close> on every path.
\<close>

definition parse_wal2json ::
  "(string \<Rightarrow> json option) \<Rightarrow> datetime \<Rightarrow> (json \<Rightarrow> datetime option) \<Rightarrow> PostgreSQLCDCListener
     \<Rightarrow> string \<Rightarrow> exn + ChangeEvent option" where
  "parse_wal2json loads now date_parse self payload =
     (case (case loads payload of
              None \<Rightarrow> Inl JSONDecodeError
            | Some data \<Rightarrow> parse_body now date_parse self data) of
        Inl JSONDecodeError \<Rightarrow> Inr None
      | Inl e \<Rightarrow> Inr None
      | Inr r \<Rightarrow> Inr r)"

subsection \<open>\<open>_process_message\<close>\<close>

text \<open>\<open>str\<close> of an \<open>int\<close>: decimal digits, with a minus sign below zero.\<close>

definition digit_char :: "nat \<Rightarrow> char" where
  "digit_char d = ''0123456789'' ! d"

fun str_nat :: "nat \<Rightarrow> string" where
  "str_nat n = (if n < 10 then [digit_char n] else str_nat (n div 10) @ [digit_char (n mod 10)])"

definition str_int :: "int \<Rightarrow> string" where
  "str_int i = (if i < 0 then CHR ''-'' # str_nat (nat (- i)) else str_nat (nat i))"

text \<open>A replication message: the decoded payload and the offset \<open>data_start\<close>.\<close>

record ReplicationMessage =
  payload :: string
  data_start :: int

text \<open>
  \<open>callback\<close> is the manager's ingestion entry point acting on the manager's state \<open>'m\<close>;
  \<open>Some e\<close> in its result is an exception it raises. The result lists the positions
  passed to \<open>send_feedback\<close>. Whatever is raised inside the \<open>try\<close> (by the callback or by
  \<open>send_feedback\<close>) is logged and dropped, so the method returns normally on every path;
  an exception of the callback skips the feedback.
\<close>

definition process_message ::
  "(string \<Rightarrow> json option) \<Rightarrow> datetime \<Rightarrow> (json \<Rightarrow> datetime option)
     \<Rightarrow> (ChangeEvent \<Rightarrow> 'm \<Rightarrow> exn option \<times> 'm)
     \<Rightarrow> PostgreSQLCDCListener \<Rightarrow> ReplicationMessage \<Rightarrow> 'm
     \<Rightarrow> PostgreSQLCDCListener \<times> 'm \<times> int list" where
  "process_message loads now date_parse callback self msg m =
     (let self1 = self\<lparr>current_position := Some (str_int (data_start msg))\<rparr> in
      case parse_wal2json loads now date_parse self1 (payload msg) of
        Inl e \<Rightarrow> (self1, m, [])
      | Inr None \<Rightarrow> (self1, m, [data_start msg])
      | Inr (Some event) \<Rightarrow>
          (case callback event m of
             (Some e, m') \<Rightarrow> (self1, m', [])
           | (None, m') \<Rightarrow> (self1, m', [data_start msg])))"

section \<open>The manager (cdc/manager.py)\<close>

text \<open>
  A handler as the manager sees it: its class name, its predicate and the outcome of its
  two entry points, where \<open>Some msg\<close> is an \<open>Exception\<close> \<open>e\<close> with \<open>str(e) = msg\<close>.
  The predicate may raise as well (\<open>Inl e\<close>): the two handlers of the repository test
  \<open>event.table in self.table_to_node_type\<close>, which raises \<open>TypeError\<close> on a table
  that cannot be hashed.
\<close>

record CDCHandler =
  h_class_name :: string
  h_can_handle :: "ChangeEvent \<Rightarrow> exn + bool"
  h_handle_change :: "ChangeEvent \<Rightarrow> string option"
  h_handle_batch :: "ChangeEvent list \<Rightarrow> string option"

text \<open>A listener as the manager sees it: the outcome of each call the manager makes.\<close>

record CDCListener =
  l_setup :: "exn option"
  l_start_streaming :: "exn option"
  l_stop_streaming :: "exn option"
  l_get_status :: "string + (string \<times> json) list"
  l_cleanup :: "exn option"

text \<open>
  An entry of \<open>metrics['errors']\<close>. The batch path stores \<open>event_count\<close>, the
  single-event path stores \<open>str(event)\<close>, kept here as the event.
\<close>

datatype error_entry =
    BatchError string string datetime nat
  | EventError string string datetime ChangeEvent

record Metrics =
  events_received :: int
  events_processed :: int
  events_failed :: int
  batches_processed :: int
  last_event_time :: "datetime option"
  errors :: "error_entry list"

text \<open>
  What a thread running the manager's code does, in order: taking and releasing the
  two locks, entering \<open>_process_batch\<close>, calling a handler (named by its index in
  \<open>handlers\<close>) and calling a listener (named by its key).
\<close>

datatype lock = QueueLock | MetricsLock

datatype action =
    Acquire lock
  | Release lock
  | ProcessBatch "ChangeEvent list"
  | HandleBatch nat "ChangeEvent list"
  | HandleChange nat ChangeEvent
  | ListenerSetup string
  | ListenerStart string
  | ListenerStop string
  | ListenerCleanup string

text \<open>
  \<open>batch_thread\<close> tells whether the attribute holds a thread; \<open>ticks\<close> counts the calls
  of \<open>datetime.now()\<close>, the k-th of which returns \<open>clock k\<close>; \<open>trace\<close> is the log of
  actions.
\<close>

record CDCManager =
  listeners :: "(string \<times> CDCListener) list"
  handlers :: "CDCHandler list"
  batch_size :: int
  batch_timeout :: real
  enable_batching :: bool
  event_queue :: "ChangeEvent list"
  batch_thread :: bool
  stop_batching :: bool
  metrics :: Metrics
  ticks :: nat
  trace :: "action list"

definition init_manager :: "int \<Rightarrow> real \<Rightarrow> bool \<Rightarrow> CDCManager" where
  "init_manager bsize btimeout batching =
     \<lparr>listeners = [], handlers = [], batch_size = bsize, batch_timeout = btimeout,
      enable_batching = batching, event_queue = [], batch_thread = False,
      stop_batching = False,
      metrics = \<lparr>events_received = 0, events_processed = 0, events_failed = 0,
                 batches_processed = 0, last_event_time = None, errors = []\<rparr>,
      ticks = 0, trace = []\<rparr>"

definition emit :: "action \<Rightarrow> CDCManager \<Rightarrow> CDCManager" where
  "emit a s = s\<lparr>trace := trace s @ [a]\<rparr>"

text \<open>\<open>with self.metrics_lock: ...\<close>\<close>

definition with_metrics_lock :: "(CDCManager \<Rightarrow> CDCManager) \<Rightarrow> CDCManager \<Rightarrow> CDCManager" where
  "with_metrics_lock body s = emit (Release MetricsLock) (body (emit (Acquire MetricsLock) s))"

text \<open>\<open>datetime.now()\<close>\<close>

definition read_clock :: "(nat \<Rightarrow> datetime) \<Rightarrow> CDCManager \<Rightarrow> datetime \<times> CDCManager" where
  "read_clock clock s = (clock (ticks s), s\<lparr>ticks := Suc (ticks s)\<rparr>)"

subsection \<open>\<open>register_listener\<close>, \<open>add_handler\<close>, \<open>start_all\<close>\<close>

definition register_listener ::
  "string \<Rightarrow> CDCListener \<Rightarrow> bool \<Rightarrow> CDCManager \<Rightarrow> exn option \<times> CDCManager" where
  "register_listener name listener auto_setup s =
     (if map_of (listeners s) name \<noteq> None
      then (Some (CDCError (''Listener '' @ [CHR 0x27] @ name @ [CHR 0x27] @ '' already registered'')), s)
      else
        let s1 = s\<lparr>listeners := listeners s @ [(name, listener)]\<rparr> in
        if auto_setup then
          (case l_setup listener of
             None \<Rightarrow> (None, emit (ListenerSetup name) s1)
           | Some e \<Rightarrow> (Some e, emit (ListenerSetup name) s1))
        else (None, s1))"

definition add_handler :: "CDCHandler \<Rightarrow> CDCManager \<Rightarrow> CDCManager" where
  "add_handler handler s = s\<lparr>handlers := handlers s @ [handler]\<rparr>"

text \<open>An exception of \<open>start_streaming\<close> or \<open>stop_streaming\<close> is logged and dropped.\<close>

definition start_all :: "CDCManager \<Rightarrow> CDCManager" where
  "start_all s =
     (if listeners s = [] then s
      else
        let s1 = (if enable_batching s then s\<lparr>stop_batching := False, batch_thread := True\<rparr> else s)
        in fold (\<lambda>(name, listener). emit (ListenerStart name)) (listeners s1) s1)"

subsection \<open>\<open>_process_batch\<close> and \<open>_process_event\<close>\<close>

text \<open>
  \<open>[e for e in events if handler.can_handle(e)]\<close>: the comprehension is left at the
  first event on which the predicate raises.
\<close>

fun handler_events :: "CDCHandler \<Rightarrow> ChangeEvent list \<Rightarrow> exn + ChangeEvent list" where
  "handler_events handler [] = Inr []"
| "handler_events handler (e # es) =
     (case h_can_handle handler e of
        Inl x \<Rightarrow> Inl x
      | Inr accepted \<Rightarrow>
          (case handler_events handler es of
             Inl x \<Rightarrow> Inl x
           | Inr rest \<Rightarrow> Inr (if accepted then e # rest else rest)))"

definition record_batch_success :: "nat \<Rightarrow> CDCManager \<Rightarrow> CDCManager" where
  "record_batch_success n =
     with_metrics_lock (\<lambda>s. s\<lparr>metrics := (metrics s)
       \<lparr>events_processed := events_processed (metrics s) + int n,
        batches_processed := batches_processed (metrics s) + 1\<rparr>\<rparr>)"

definition record_batch_failure ::
  "(nat \<Rightarrow> datetime) \<Rightarrow> string \<Rightarrow> string \<Rightarrow> nat \<Rightarrow> CDCManager \<Rightarrow> CDCManager" where
  "record_batch_failure clock name msg n =
     with_metrics_lock (\<lambda>s.
       let s1 = s\<lparr>metrics := (metrics s)\<lparr>events_failed := events_failed (metrics s) + int n\<rparr>\<rparr>;
           (t, s2) = read_clock clock s1
       in s2\<lparr>metrics := (metrics s2)\<lparr>errors := errors (metrics s2) @ [BatchError name msg t n]\<rparr>\<rparr>)"

text \<open>
  One turn of the loop \<open>for handler in self.handlers\<close> of \<open>_process_batch\<close>. The
  filtering stands before the \<open>try\<close>: an exception of the predicate leaves the method
  (\<open>Some e\<close>); one of \<open>handle_batch\<close> is caught and recorded.
\<close>

definition dispatch_batch_one ::
  "(nat \<Rightarrow> datetime) \<Rightarrow> ChangeEvent list \<Rightarrow> nat \<Rightarrow> CDCHandler \<Rightarrow> CDCManager
     \<Rightarrow> exn option \<times> CDCManager" where
  "dispatch_batch_one clock events i handler s =
     (case handler_events handler events of
        Inl e \<Rightarrow> (Some e, s)
      | Inr evs \<Rightarrow>
          (None,
           if evs = [] then s
           else
             (case h_handle_batch handler evs of
                None \<Rightarrow> record_batch_success (length evs) (emit (HandleBatch i evs) s)
              | Some msg \<Rightarrow>
                  record_batch_failure clock (h_class_name handler) msg (length evs)
                    (emit (HandleBatch i evs) s))))"

fun dispatch_batch ::
  "(nat \<Rightarrow> datetime) \<Rightarrow> ChangeEvent list \<Rightarrow> nat \<Rightarrow> CDCHandler list \<Rightarrow> CDCManager
     \<Rightarrow> exn option \<times> CDCManager" where
  "dispatch_batch clock events i [] s = (None, s)"
| "dispatch_batch clock events i (handler # hs) s =
     (case dispatch_batch_one clock events i handler s of
        (Some e, s') \<Rightarrow> (Some e, s')
      | (None, s') \<Rightarrow> dispatch_batch clock events (Suc i) hs s')"

definition process_batch ::
  "(nat \<Rightarrow> datetime) \<Rightarrow> ChangeEvent list \<Rightarrow> CDCManager \<Rightarrow> exn option \<times> CDCManager" where
  "process_batch clock events s =
     (let s1 = emit (ProcessBatch events) s in
      if events = [] then (None, s1) else dispatch_batch clock events 0 (handlers s1) s1)"

definition record_event_success :: "CDCManager \<Rightarrow> CDCManager" where
  "record_event_success =
     with_metrics_lock (\<lambda>s. s\<lparr>metrics := (metrics s)
       \<lparr>events_processed := events_processed (metrics s) + 1\<rparr>\<rparr>)"

definition record_event_failure ::
  "(nat \<Rightarrow> datetime) \<Rightarrow> string \<Rightarrow> string \<Rightarrow> ChangeEvent \<Rightarrow> CDCManager \<Rightarrow> CDCManager" where
  "record_event_failure clock name msg event =
     with_metrics_lock (\<lambda>s.
       let s1 = s\<lparr>metrics := (metrics s)\<lparr>events_failed := events_failed (metrics s) + 1\<rparr>\<rparr>;
           (t, s2) = read_clock clock s1
       in s2\<lparr>metrics := (metrics s2)\<lparr>errors := errors (metrics s2) @ [EventError name msg t event]\<rparr>\<rparr>)"

text \<open>\<open>_process_event\<close>: here too \<open>can_handle\<close> is called outside the \<open>try\<close>.\<close>

fun dispatch_event ::
  "(nat \<Rightarrow> datetime) \<Rightarrow> ChangeEvent \<Rightarrow> nat \<Rightarrow> CDCHandler list \<Rightarrow> CDCManager
     \<Rightarrow> exn option \<times> CDCManager" where
  "dispatch_event clock event i [] s = (None, s)"
| "dispatch_event clock event i (handler # hs) s =
     (case h_can_handle handler event of
        Inl e \<Rightarrow> (Some e, s)
      | Inr accepted \<Rightarrow>
          dispatch_event clock event (Suc i) hs
            (if accepted then
               (case h_handle_change handler event of
                  None \<Rightarrow> record_event_success (emit (HandleChange i event) s)
                | Some msg \<Rightarrow>
                    record_event_failure clock (h_class_name handler) msg event
                      (emit (HandleChange i event) s))
             else s))"

definition process_event ::
  "(nat \<Rightarrow> datetime) \<Rightarrow> ChangeEvent \<Rightarrow> CDCManager \<Rightarrow> exn option \<times> CDCManager" where
  "process_event clock event s = dispatch_event clock event 0 (handlers s) s"

subsection \<open>\<open>_handle_change\<close>, \<open>_batch_processor\<close>, \<open>stop_all\<close>, \<open>get_status\<close>\<close>

text \<open>
  \<open>with self.queue_lock:\<close> spans the append, the size test and, when the batch is full,
  the copy, the clear and the call of \<open>_process_batch\<close>. The lock is released when the
  block is left, also by an exception, which then leaves \<open>_handle_change\<close>.
\<close>

definition handle_change ::
  "(nat \<Rightarrow> datetime) \<Rightarrow> ChangeEvent \<Rightarrow> CDCManager \<Rightarrow> exn option \<times> CDCManager" where
  "handle_change clock event s =
     (let s1 = with_metrics_lock (\<lambda>s.
                 let s' = s\<lparr>metrics := (metrics s)\<lparr>events_received := events_received (metrics s) + 1\<rparr>\<rparr>;
                     (t, s'') = read_clock clock s'
                 in s''\<lparr>metrics := (metrics s'')\<lparr>last_event_time := Some t\<rparr>\<rparr>) s
      in
      if enable_batching s1 then
        let s2 = emit (Acquire QueueLock) s1;
            s3 = s2\<lparr>event_queue := event_queue s2 @ [event]\<rparr>;
            r = (if int (length (event_queue s3)) \<ge> batch_size s3 then
                   let batch = event_queue s3;
                       s5 = s3\<lparr>event_queue := []\<rparr>
                   in process_batch clock batch s5
                 else (None, s3))
        in (fst r, emit (Release QueueLock) (snd r))
      else process_event clock event s1)"

text \<open>
  One turn of the loop of \<open>_batch_processor\<close>, after the sleep: \<open>current_time\<close> is what
  \<open>time.time()\<close> returns, \<open>last_process_time\<close> the local variable, returned updated.
  An exception of \<open>_process_batch\<close> ends the thread's function before the update.
\<close>

definition batch_processor_step ::
  "(nat \<Rightarrow> datetime) \<Rightarrow> real \<Rightarrow> real \<Rightarrow> CDCManager \<Rightarrow> exn option \<times> real \<times> CDCManager" where
  "batch_processor_step clock current_time last_process_time s =
     (let elapsed = current_time - last_process_time in
      if elapsed \<ge> batch_timeout s then
        let s1 = emit (Acquire QueueLock) s;
            r = (if event_queue s1 \<noteq> [] then
                   let batch = event_queue s1;
                       s3 = s1\<lparr>event_queue := []\<rparr>
                   in process_batch clock batch s3
                 else (None, s1))
        in (fst r,
            (case fst r of None \<Rightarrow> current_time | Some e \<Rightarrow> last_process_time),
            emit (Release QueueLock) (snd r))
      else (None, last_process_time, s))"

text \<open>
  The loop runs one turn for each reading of \<open>time.time()\<close> made while the stop flag is
  clear; the list holds these readings.
\<close>

fun batch_processor ::
  "(nat \<Rightarrow> datetime) \<Rightarrow> real list \<Rightarrow> real \<Rightarrow> CDCManager \<Rightarrow> exn option \<times> CDCManager" where
  "batch_processor clock [] last_process_time s = (None, s)"
| "batch_processor clock (current_time # readings) last_process_time s =
     (case batch_processor_step clock current_time last_process_time s of
        (Some e, last', s') \<Rightarrow> (Some e, s')
      | (None, last', s') \<Rightarrow> batch_processor clock readings last' s')"

text \<open>
  \<open>stop_all\<close>: every listener is stopped (an exception is logged and dropped); with a
  flush thread, the flag is set, the thread joined, and a queue that is not empty is
  passed to \<open>_process_batch\<close> and then cleared. An exception of \<open>_process_batch\<close>
  leaves \<open>stop_all\<close> before the clear.
\<close>

definition stop_all :: "(nat \<Rightarrow> datetime) \<Rightarrow> CDCManager \<Rightarrow> exn option \<times> CDCManager" where
  "stop_all clock s =
     (let s1 = fold (\<lambda>(name, listener). emit (ListenerStop name)) (listeners s) s in
      if batch_thread s1 then
        let s2 = s1\<lparr>stop_batching := True\<rparr> in
        if event_queue s2 \<noteq> [] then
          (case process_batch clock (event_queue s2) s2 of
             (Some e, s3) \<Rightarrow> (Some e, s3)
           | (None, s3) \<Rightarrow> (None, s3\<lparr>event_queue := []\<rparr>))
        else (None, s2)
      else (None, s1))"

record ManagerStatus =
  st_listeners :: "(string \<times> (string \<times> json) list) list"
  st_handlers :: "string list"
  st_metrics :: Metrics
  st_enabled :: bool
  st_batch_size :: int
  st_batch_timeout :: real
  st_queue_size :: nat

definition get_status :: "CDCManager \<Rightarrow> ManagerStatus" where
  "get_status s =
     \<lparr>st_listeners =
        map (\<lambda>(name, listener).
               (name, case l_get_status listener of
                        Inr st \<Rightarrow> st
                      | Inl msg \<Rightarrow> [(''error'', JStr msg)]))
            (listeners s),
      st_handlers = map h_class_name (handlers s),
      st_metrics = metrics s,
      st_enabled = enable_batching s,
      st_batch_size = batch_size s,
      st_batch_timeout = batch_timeout s,
      st_queue_size = length (event_queue s)\<rparr>"

section \<open>The graph-sync handler (cdc/handlers.py)\<close>

text \<open>
  Of a schema property the handler reads the name only; of a node type, the label, the
  properties, the source table and the name of the primary-key property.
\<close>

record Property =
  prop_name :: string

record NodeType =
  nt_label :: string
  nt_properties :: "Property list"
  nt_source_table :: "string option"
  nt_primary_key :: "string option"

record GraphSyncHandler =
  node_types :: "NodeType list"
  domain_prefix :: string
  table_to_node_type :: "string \<rightharpoonup> NodeType"

text \<open>The constructor: a later node type with the same source table replaces an earlier one.\<close>

definition build_table_to_node_type :: "NodeType list \<Rightarrow> (string \<rightharpoonup> NodeType)" where
  "build_table_to_node_type nts =
     fold (\<lambda>node_type m.
             case nt_source_table node_type of
               None \<Rightarrow> m
             | Some t \<Rightarrow> if t = [] then m else m(t \<mapsto> node_type))
          nts Map.empty"

definition init_graph_sync_handler :: "NodeType list \<Rightarrow> string \<Rightarrow> GraphSyncHandler" where
  "init_graph_sync_handler nts dprefix =
     \<lparr>node_types = nts, domain_prefix = dprefix,
      table_to_node_type = build_table_to_node_type nts\<rparr>"

text \<open>
  The calls made on the graph store. The store is a collaborator: \<open>exec\<close> gives, for a
  call and a store \<open>'g\<close>, the exception raised (if any) and the store afterwards.
\<close>

datatype param = PValue json | PDict pydict

datatype graph_call =
    CreateNode string pydict
  | BatchCreateNodes string "pydict list"
  | ExecuteQuery string "(string \<times> param) list option"

text \<open>
  \<open>self.table_to_node_type.get(event.table)\<close>: the keys are strings, a table that is
  not a string finds nothing, and one that cannot be hashed raises.
\<close>

fun lookup_node_type :: "GraphSyncHandler \<Rightarrow> json \<Rightarrow> exn + NodeType option" where
  "lookup_node_type self (JStr t) = Inr (table_to_node_type self t)"
| "lookup_node_type self (JArr xs) = Inl TypeError"
| "lookup_node_type self (JObj kvs) = Inl TypeError"
| "lookup_node_type self JNull = Inr None"
| "lookup_node_type self (JBool b) = Inr None"
| "lookup_node_type self (JInt i) = Inr None"
| "lookup_node_type self (JFloat f) = Inr None"

definition graph_can_handle :: "GraphSyncHandler \<Rightarrow> ChangeEvent \<Rightarrow> exn + bool" where
  "graph_can_handle self event =
     (case lookup_node_type self (table event) of
        Inl e \<Rightarrow> Inl e
      | Inr r \<Rightarrow> Inr (r \<noteq> None))"

definition prepare_properties :: "pydict option \<Rightarrow> NodeType \<Rightarrow> pydict" where
  "prepare_properties data node_type =
     (case data of
        None \<Rightarrow> []
      | Some d \<Rightarrow>
          if d = [] then []
          else fold (\<lambda>prop properties.
                       case dict_get d (JStr (prop_name prop)) of
                         None \<Rightarrow> properties
                       | Some v \<Rightarrow>
                           if v \<noteq> JNull then dict_set properties (JStr (prop_name prop)) v
                           else properties)
                    (nt_properties node_type) [])"

definition handle_insert ::
  "(graph_call \<Rightarrow> 'g \<Rightarrow> exn option \<times> 'g) \<Rightarrow> GraphSyncHandler \<Rightarrow> ChangeEvent \<Rightarrow> 'g \<Rightarrow> exn option \<times> 'g" where
  "handle_insert exec self event g =
     (case lookup_node_type self (table event) of
        Inl e \<Rightarrow> (Some e, g)
      | Inr None \<Rightarrow> (None, g)
      | Inr (Some node_type) \<Rightarrow>
          exec (CreateNode (nt_label node_type) (prepare_properties (new_data event) node_type)) g)"

text \<open>The primary-key value sent with an update or a delete, when there is a usable one.\<close>

definition usable_pk_value :: "ChangeEvent \<Rightarrow> NodeType \<Rightarrow> (string \<times> json) option" where
  "usable_pk_value event node_type =
     (case (primary_key event, nt_primary_key node_type) of
        (Some pk, Some name) \<Rightarrow>
          if pk \<noteq> [] \<and> name \<noteq> [] then
            (case dict_get pk (JStr name) of
               Some v \<Rightarrow> if truthy v then Some (name, v) else None
             | None \<Rightarrow> None)
          else None
      | _ \<Rightarrow> None)"

definition update_query :: "string \<Rightarrow> string \<Rightarrow> string" where
  "update_query label name =
     [CHR 0x0A] @ ''                MATCH (n:'' @ label @ '' {'' @ name @ '': $pk_value})''
     @ [CHR 0x0A] @ ''                SET n += $properties''
     @ [CHR 0x0A] @ ''                RETURN n''
     @ [CHR 0x0A] @ ''                ''"

definition delete_query :: "string \<Rightarrow> string \<Rightarrow> string" where
  "delete_query label name =
     [CHR 0x0A] @ ''                MATCH (n:'' @ label @ '' {'' @ name @ '': $pk_value})''
     @ [CHR 0x0A] @ ''                DETACH DELETE n''
     @ [CHR 0x0A] @ ''                ''"

definition truncate_query :: "string \<Rightarrow> string" where
  "truncate_query label = ''MATCH (n:'' @ label @ '') DETACH DELETE n''"

definition handle_update ::
  "(graph_call \<Rightarrow> 'g \<Rightarrow> exn option \<times> 'g) \<Rightarrow> GraphSyncHandler \<Rightarrow> ChangeEvent \<Rightarrow> 'g \<Rightarrow> exn option \<times> 'g" where
  "handle_update exec self event g =
     (case lookup_node_type self (table event) of
        Inl e \<Rightarrow> (Some e, g)
      | Inr None \<Rightarrow> (None, g)
      | Inr (Some node_type) \<Rightarrow>
          (let properties = prepare_properties (new_data event) node_type in
           (case usable_pk_value event node_type of
              None \<Rightarrow> (None, g)
            | Some (name, pk_value) \<Rightarrow>
                exec (ExecuteQuery (update_query (nt_label node_type) name)
                        (Some [(''pk_value'', PValue pk_value), (''properties'', PDict properties)])) g)))"

definition handle_delete ::
  "(graph_call \<Rightarrow> 'g \<Rightarrow> exn option \<times> 'g) \<Rightarrow> GraphSyncHandler \<Rightarrow> ChangeEvent \<Rightarrow> 'g \<Rightarrow> exn option \<times> 'g" where
  "handle_delete exec self event g =
     (case lookup_node_type self (table event) of
        Inl e \<Rightarrow> (Some e, g)
      | Inr None \<Rightarrow> (None, g)
      | Inr (Some node_type) \<Rightarrow>
          (case usable_pk_value event node_type of
             None \<Rightarrow> (None, g)
           | Some (name, pk_value) \<Rightarrow>
               exec (ExecuteQuery (delete_query (nt_label node_type) name)
                       (Some [(''pk_value'', PValue pk_value)])) g))"

definition handle_truncate ::
  "(graph_call \<Rightarrow> 'g \<Rightarrow> exn option \<times> 'g) \<Rightarrow> GraphSyncHandler \<Rightarrow> ChangeEvent \<Rightarrow> 'g \<Rightarrow> exn option \<times> 'g" where
  "handle_truncate exec self event g =
     (case lookup_node_type self (table event) of
        Inl e \<Rightarrow> (Some e, g)
      | Inr None \<Rightarrow> (None, g)
      | Inr (Some node_type) \<Rightarrow>
          exec (ExecuteQuery (truncate_query (nt_label node_type)) None) g)"

text \<open>The single-event entry point; what a branch raises is logged and raised again.\<close>

definition graph_handle_change ::
  "(graph_call \<Rightarrow> 'g \<Rightarrow> exn option \<times> 'g) \<Rightarrow> GraphSyncHandler \<Rightarrow> ChangeEvent \<Rightarrow> 'g \<Rightarrow> exn option \<times> 'g" where
  "graph_handle_change exec self event g =
     (if operation event = INSERT then handle_insert exec self event g
      else if operation event = UPDATE then handle_update exec self event g
      else if operation event = DELETE then handle_delete exec self event g
      else if operation event = TRUNCATE then handle_truncate exec self event g
      else (None, g))"

text \<open>\<open>for x in xs: f(x)\<close>, left at the first exception.\<close>

fun for_each ::
  "('a \<Rightarrow> 'g \<Rightarrow> exn option \<times> 'g) \<Rightarrow> 'a list \<Rightarrow> 'g \<Rightarrow> exn option \<times> 'g" where
  "for_each f [] g = (None, g)"
| "for_each f (x # xs) g =
     (case f x g of
        (Some e, g') \<Rightarrow> (Some e, g')
      | (None, g') \<Rightarrow> for_each f xs g')"

text \<open>
  \<open>_batch_insert\<close> groups the events by table in a dict (first occurrence fixes the
  order; a table that cannot be hashed raises), then issues one bulk call per table that
  has a node type.
\<close>

fun group_add :: "(json \<times> ChangeEvent list) list \<Rightarrow> ChangeEvent \<Rightarrow> (json \<times> ChangeEvent list) list" where
  "group_add [] event = [(table event, [event])]"
| "group_add ((t, es) # by_table) event =
     (if py_key_eq t (table event) then (t, es @ [event]) # by_table
      else (t, es) # group_add by_table event)"

fun group_by_table ::
  "ChangeEvent list \<Rightarrow> (json \<times> ChangeEvent list) list \<Rightarrow> exn + (json \<times> ChangeEvent list) list" where
  "group_by_table [] by_table = Inr by_table"
| "group_by_table (event # events) by_table =
     (if hashable (table event) then group_by_table events (group_add by_table event)
      else Inl TypeError)"

definition batch_insert_table ::
  "(graph_call \<Rightarrow> 'g \<Rightarrow> exn option \<times> 'g) \<Rightarrow> GraphSyncHandler \<Rightarrow> json \<times> ChangeEvent list \<Rightarrow> 'g \<Rightarrow> exn option \<times> 'g" where
  "batch_insert_table exec self entry g =
     (case lookup_node_type self (fst entry) of
        Inl e \<Rightarrow> (Some e, g)
      | Inr None \<Rightarrow> (None, g)
      | Inr (Some node_type) \<Rightarrow>
          let nodes = map (\<lambda>event. prepare_properties (new_data event) node_type) (snd entry) in
          if nodes \<noteq> [] then exec (BatchCreateNodes (nt_label node_type) nodes) g else (None, g))"

definition batch_insert ::
  "(graph_call \<Rightarrow> 'g \<Rightarrow> exn option \<times> 'g) \<Rightarrow> GraphSyncHandler \<Rightarrow> ChangeEvent list \<Rightarrow> 'g \<Rightarrow> exn option \<times> 'g" where
  "batch_insert exec self events g =
     (case group_by_table events [] of
        Inl e \<Rightarrow> (Some e, g)
      | Inr by_table \<Rightarrow> for_each (batch_insert_table exec self) by_table g)"

definition batch_update ::
  "(graph_call \<Rightarrow> 'g \<Rightarrow> exn option \<times> 'g) \<Rightarrow> GraphSyncHandler \<Rightarrow> ChangeEvent list \<Rightarrow> 'g \<Rightarrow> exn option \<times> 'g" where
  "batch_update exec self events g = for_each (handle_update exec self) events g"

definition batch_delete ::
  "(graph_call \<Rightarrow> 'g \<Rightarrow> exn option \<times> 'g) \<Rightarrow> GraphSyncHandler \<Rightarrow> ChangeEvent list \<Rightarrow> 'g \<Rightarrow> exn option \<times> 'g" where
  "batch_delete exec self events g = for_each (handle_delete exec self) events g"

text \<open>
  The batch entry point sorts the events into three lists, by the tests
  \<open>operation == INSERT\<close>, \<open>elif operation == UPDATE\<close>, \<open>elif operation == DELETE\<close>, and
  runs the three batch methods on the lists that are not empty.
\<close>

definition graph_handle_batch ::
  "(graph_call \<Rightarrow> 'g \<Rightarrow> exn option \<times> 'g) \<Rightarrow> GraphSyncHandler \<Rightarrow> ChangeEvent list \<Rightarrow> 'g \<Rightarrow> exn option \<times> 'g" where
  "graph_handle_batch exec self events g =
     (let inserts = filter (\<lambda>event. operation event = INSERT) events;
          updates = filter (\<lambda>event. operation event = UPDATE) events;
          deletes = filter (\<lambda>event. operation event = DELETE) events
      in
      case (if inserts \<noteq> [] then batch_insert exec self inserts g else (None, g)) of
        (Some e, g1) \<Rightarrow> (Some e, g1)
      | (None, g1) \<Rightarrow>
          (case (if updates \<noteq> [] then batch_update exec self updates g1 else (None, g1)) of
             (Some e, g2) \<Rightarrow> (Some e, g2)
           | (None, g2) \<Rightarrow>
               if deletes \<noteq> [] then batch_delete exec self deletes g2 else (None, g2)))"

section \<open>Payloads, as the specification describes them\<close>

text \<open>
  The change record of a decoded payload: the payload itself when it is a flat object,
  the first entry of the list under \<open>change\<close> when it is the wrapped envelope.
\<close>

definition change_record :: "json \<Rightarrow> json option" where
  "change_record data =
     (case data of
        JObj kvs \<Rightarrow>
          (case map_of kvs ''change'' of
             None \<Rightarrow> Some data
           | Some (JArr (c # cs)) \<Rightarrow> Some c
           | Some _ \<Rightarrow> None)
      | _ \<Rightarrow> None)"

text \<open>
  A row change is valid when it names its table (a string that is not empty) and its
  schema, and when \<open>columns\<close> and \<open>identity\<close>, where present, are lists of objects
  that each carry a string \<open>name\<close>.
\<close>

fun valid_column :: "json \<Rightarrow> bool" where
  "valid_column (JObj kvs) = (case map_of kvs ''name'' of Some (JStr n) \<Rightarrow> True | _ \<Rightarrow> False)"
| "valid_column _ = False"

definition valid_columns :: "json option \<Rightarrow> bool" where
  "valid_columns cols =
     (case cols of
        None \<Rightarrow> True
      | Some (JArr cs) \<Rightarrow> list_all valid_column cs
      | Some _ \<Rightarrow> False)"

definition valid_row_change :: "(string \<times> json) list \<Rightarrow> bool" where
  "valid_row_change kvs =
     ((case map_of kvs ''table'' of Some (JStr t) \<Rightarrow> t \<noteq> [] | _ \<Rightarrow> False)
      \<and> (case map_of kvs ''schema'' of Some (JStr s) \<Rightarrow> True | _ \<Rightarrow> False)
      \<and> valid_columns (map_of kvs ''columns'')
      \<and> valid_columns (map_of kvs ''identity''))"

text \<open>A change record lacks a table name: no \<open>table\<close> field, or one that is null or empty.\<close>

definition lacks_table :: "(string \<times> json) list \<Rightarrow> bool" where
  "lacks_table kvs = (case map_of kvs ''table'' of None \<Rightarrow> True | Some v \<Rightarrow> \<not> truthy v)"

text \<open>A malformed payload: not valid JSON, or a change record that lacks a table name.\<close>

definition malformed :: "(string \<Rightarrow> json option) \<Rightarrow> string \<Rightarrow> bool" where
  "malformed loads raw =
     (case loads raw of
        None \<Rightarrow> True
      | Some data \<Rightarrow>
          (case change_record data of
             Some (JObj kvs) \<Rightarrow> lacks_table kvs
           | _ \<Rightarrow> False))"

text \<open>
  The example insert of the specification, decoded:
  \<^verbatim>\<open>{"action":"I","schema":"public","table":"patients",
     "columns":[{"name":"id","value":7},{"name":"name","value":"Amy"}]}\<close>
\<close>

definition example_columns :: "(string \<times> json) list" where
  "example_columns =
     [(''action'', JStr ''I''), (''schema'', JStr ''public''), (''table'', JStr ''patients''),
      (''columns'', JArr [JObj [(''name'', JStr ''id''), (''value'', JInt 7)],
                         JObj [(''name'', JStr ''name''), (''value'', JStr ''Amy'')]])]"

definition example_listener :: PostgreSQLCDCListener where
  "example_listener =
     \<lparr>slot_name = ''graph_sync_slot'', publication_name = ''graph_sync_pub'',
      is_running = True, current_position = None\<rparr>"

text \<open>
  The primary key as the specification words it: a copy of old-data when the payload
  carries identity columns, otherwise \<open>{"id": v}\<close> when new-data has a column named
  \<open>id\<close> with value \<open>v\<close>, otherwise absent.
\<close>

definition spec_primary_key :: "pydict option \<Rightarrow> pydict option \<Rightarrow> pydict option" where
  "spec_primary_key old new =
     (case old of
        Some (c # cs) \<Rightarrow> Some (c # cs)
      | _ \<Rightarrow>
          (case new of
             None \<Rightarrow> None
           | Some d \<Rightarrow>
               (case dict_get d (JStr ''id'') of
                  Some v \<Rightarrow> Some [(JStr ''id'', v)]
                | None \<Rightarrow> None)))"

text \<open>The event the example parses to, received at time 0 by \<open>example_listener\<close>.\<close>

definition example_event :: ChangeEvent where
  "example_event =
     \<lparr>operation = INSERT, table = JStr ''patients'', schema = JStr ''public'',
      timestamp = 0, database_type = ''postgres'', old_data = None,
      new_data = Some [(JStr ''id'', JInt 7), (JStr ''name'', JStr ''Amy'')],
      primary_key = Some [(JStr ''id'', JInt 7)], ddl_statement = None,
      transaction_id = JNull, lsn = JNull, position = None,
      metadata =
        [(''publication'', JStr ''graph_sync_pub''), (''slot'', JStr ''graph_sync_slot''),
         (''plugin'', JStr ''wal2json''), (''nextlsn'', JNull)]\<rparr>"

text \<open>
  The action code of a change record, as the payload shape \<open>action|kind\<close> gives it: the
  string under \<open>action\<close>, or the string under \<open>kind\<close> when there is no \<open>action\<close> field.
\<close>

definition action_code :: "(string \<times> json) list \<Rightarrow> string option" where
  "action_code kvs =
     (case map_of kvs ''action'' of
        Some (JStr a) \<Rightarrow> Some a
      | Some v \<Rightarrow> None
      | None \<Rightarrow>
          (case map_of kvs ''kind'' of
             Some (JStr k) \<Rightarrow> Some k
           | _ \<Rightarrow> None))"

section \<open>Reading a trace\<close>

text \<open>The actions performed between two states of the manager.\<close>

definition since :: "CDCManager \<Rightarrow> CDCManager \<Rightarrow> action list" where
  "since s s' = drop (length (trace s)) (trace s')"

text \<open>The flushes of a trace: the batches handed to \<open>_process_batch\<close>, in order.\<close>

fun flushes :: "action list \<Rightarrow> ChangeEvent list list" where
  "flushes [] = []"
| "flushes (ProcessBatch evs # as) = evs # flushes as"
| "flushes (a # as) = flushes as"

text \<open>The events the handler at index \<open>j\<close> receives through \<open>handle_batch\<close>, in order.\<close>

fun delivered :: "nat \<Rightarrow> action list \<Rightarrow> ChangeEvent list" where
  "delivered j [] = []"
| "delivered j (HandleBatch i evs # as) = (if i = j then evs @ delivered j as else delivered j as)"
| "delivered j (a # as) = delivered j as"

text \<open>
  The locks held at each call of a handler's \<open>handle_batch\<close>, given the locks held at
  the start of the trace.
\<close>

fun locks_at_handle_batch :: "lock list \<Rightarrow> action list \<Rightarrow> lock list list" where
  "locks_at_handle_batch held [] = []"
| "locks_at_handle_batch held (Acquire l # as) = locks_at_handle_batch (l # held) as"
| "locks_at_handle_batch held (Release l # as) = locks_at_handle_batch (remove1 l held) as"
| "locks_at_handle_batch held (HandleBatch i evs # as) = held # locks_at_handle_batch held as"
| "locks_at_handle_batch held (a # as) = locks_at_handle_batch held as"

text \<open>The predicate of a handler returns on every event of a list: it raises on none.\<close>

definition predicate_returns :: "CDCHandler \<Rightarrow> ChangeEvent list \<Rightarrow> bool" where
  "predicate_returns h events =
     (case handler_events h events of Inl e \<Rightarrow> False | Inr evs \<Rightarrow> True)"

text \<open>
  What the loop of \<open>_process_batch\<close> does for a list of handlers, the first at index
  \<open>i\<close>; it ends at a handler whose predicate raises.
\<close>

fun batch_actions :: "ChangeEvent list \<Rightarrow> nat \<Rightarrow> CDCHandler list \<Rightarrow> action list" where
  "batch_actions events i [] = []"
| "batch_actions events i (h # hs) =
     (case handler_events h events of
        Inl e \<Rightarrow> []
      | Inr evs \<Rightarrow>
          (if evs = [] then []
           else [HandleBatch i evs, Acquire MetricsLock, Release MetricsLock])
          @ batch_actions events (Suc i) hs)"

text \<open>The number of events of a batch that the loop counts as failed.\<close>

fun failed_count :: "ChangeEvent list \<Rightarrow> CDCHandler list \<Rightarrow> int" where
  "failed_count events [] = 0"
| "failed_count events (h # hs) =
     (case handler_events h events of
        Inl e \<Rightarrow> 0
      | Inr evs \<Rightarrow>
          (if evs \<noteq> [] \<and> h_handle_batch h evs \<noteq> None then int (length evs) else 0)
          + failed_count events hs)"

section \<open>Example managers\<close>

text \<open>A handler that accepts every event; its batch entry point raises when \<open>fails\<close>.\<close>

definition example_handler :: "string \<Rightarrow> bool \<Rightarrow> CDCHandler" where
  "example_handler name fails =
     \<lparr>h_class_name = name, h_can_handle = (\<lambda>event. Inr True),
      h_handle_change = (\<lambda>event. None),
      h_handle_batch = (\<lambda>events. if fails then Some ''boom'' else None)\<rparr>"

text \<open>A listener whose \<open>setup\<close> raises when \<open>fails\<close>.\<close>

definition example_source :: "bool \<Rightarrow> CDCListener" where
  "example_source fails =
     \<lparr>l_setup = (if fails then Some (Raised ''wal_level must be logical'') else None),
      l_start_streaming = None, l_stop_streaming = None,
      l_get_status = Inr [], l_cleanup = None\<rparr>"

text \<open>A manager with batch size 2 and two handlers, the first of which fails.\<close>

definition example_manager :: CDCManager where
  "example_manager =
     add_handler (example_handler ''EmbeddingSyncHandler'' False)
       (add_handler (example_handler ''GraphSyncHandler'' True) (init_manager 2 5 True))"

text \<open>
  The example manager with one listener registered, started, and one event ingested:
  the queue holds one event, below the batch size of 2.
\<close>

definition example_started :: CDCManager where
  "example_started =
     snd (handle_change (\<lambda>k. 0) example_event
       (start_all (snd (register_listener ''pg'' (example_source False) True example_manager))))"

text \<open>A graph-sync handler for one node type, \<open>Patient\<close>, mapped from table \<open>patients\<close>.\<close>

definition example_graph_handler :: GraphSyncHandler where
  "example_graph_handler =
     init_graph_sync_handler
       [\<lparr>nt_label = ''Patient'',
         nt_properties = [\<lparr>prop_name = ''id''\<rparr>, \<lparr>prop_name = ''name''\<rparr>],
         nt_source_table = Some ''patients'', nt_primary_key = Some ''id''\<rparr>]
       []"

text \<open>A Truncate event on table \<open>patients\<close>.\<close>

definition truncate_patients :: ChangeEvent where
  "truncate_patients =
     example_event\<lparr>operation := TRUNCATE, new_data := None, primary_key := None\<rparr>"

text \<open>
  The event the parser returns for the example payload with \<open>"table": ["patients"]\<close>:
  its table is a list, which cannot be hashed.
\<close>

definition list_table_event :: ChangeEvent where
  "list_table_event = example_event\<lparr>table := JArr [JStr ''patients'']\<rparr>"

text \<open>A handler with the predicate of the graph-sync handler; its entry points return.\<close>

definition hashing_handler :: "string \<Rightarrow> CDCHandler" where
  "hashing_handler name =
     \<lparr>h_class_name = name, h_can_handle = graph_can_handle example_graph_handler,
      h_handle_change = (\<lambda>event. None), h_handle_batch = (\<lambda>events. None)\<rparr>"

text \<open>
  Three handlers: A accepts every event and fails, the second has the graph-sync
  predicate, B accepts every event.
\<close>

definition isolation_manager :: CDCManager where
  "isolation_manager =
     add_handler (example_handler ''B'' False)
       (add_handler (hashing_handler ''GraphSyncHandler'')
          (add_handler (example_handler ''A'' True) (init_manager 2 5 True)))"

text \<open>
  A started manager with batch size 2 and the graph-sync predicate, after the event
  with the list table has been ingested: the queue holds that event.
\<close>

definition stalled_manager :: CDCManager where
  "stalled_manager =
     snd (handle_change (\<lambda>k. 0) list_table_event
       (start_all (snd (register_listener ''pg'' (example_source False) True
          (add_handler (hashing_handler ''GraphSyncHandler'') (init_manager 2 5 True))))))"

text \<open>A clock that reads 0 at every call.\<close>

definition epoch_clock :: "nat \<Rightarrow> datetime" where
  "epoch_clock k = 0"

section \<open>Properties\<close>

subsection \<open>Exceptions as values\<close>

lemma bind_exn_Inl [simp]: "bind_exn (Inl e) f = Inl e"
  by (simp add: bind_exn_def)

lemma bind_exn_Inr [simp]: "bind_exn (Inr x) f = f x"
  by (simp add: bind_exn_def)

subsection \<open>The parser\<close>

lemma select_change_record:
  "change_record data = Some c \<Longrightarrow> select_change data = Inr (Some c)"
  by (auto simp: change_record_def select_change_def split: json.splits option.splits list.splits)

lemma change_record_obj: "change_record data = Some c \<Longrightarrow> \<exists>kvs. data = JObj kvs"
  by (auto simp: change_record_def split: json.splits)

lemma columns_dict_valid:
  "list_all valid_column cs \<Longrightarrow> \<exists>d. columns_dict cs acc = Inr d"
proof (induction cs arbitrary: acc)
  case Nil
  then show ?case by simp
next
  case (Cons c cs)
  from Cons.prems obtain kvs n where c: "c = JObj kvs" and n: "map_of kvs ''name'' = Some (JStr n)"
    by (cases c) (auto split: option.splits json.splits)
  from Cons.prems have "list_all valid_column cs" by simp
  from Cons.IH [OF this] show ?case
    by (simp add: c n py_get_def)
qed

lemma data_of_valid:
  "valid_columns (map_of kvs key) \<Longrightarrow> \<exists>d. data_of (JObj kvs) key = Inr d"
  using columns_dict_valid [of _ "[]"]
  apply (auto simp: valid_columns_def data_of_def split: option.splits json.splits)
  by (metis bind_exn_Inr)

lemma event_timestamp_obj: "\<exists>t. event_timestamp now date_parse (JObj kvs) = Inr t"
  by (auto simp: event_timestamp_def split: option.splits)

lemma parse_change_valid:
  assumes act: "get_action (JObj kvs) = Inr (JStr a)"
    and op: "action_map_get (JStr a) = Inr (Some op)" "a \<noteq> ''B''" "a \<noteq> ''C''"
    and valid: "valid_row_change kvs"
  shows "\<exists>ev. parse_change now date_parse self (JObj dkvs) (JObj kvs) = Inr (Some ev)
            \<and> operation ev = op
            \<and> map_of kvs ''table'' = Some (table ev)
            \<and> map_of kvs ''schema'' = Some (schema ev)"
proof -
  from valid obtain t s where t: "map_of kvs ''table'' = Some (JStr t)" "t \<noteq> []"
    and s: "map_of kvs ''schema'' = Some (JStr s)"
    by (auto simp: valid_row_change_def split: option.splits json.splits)
  from valid obtain nd where nd: "data_of (JObj kvs) ''columns'' = Inr nd"
    using data_of_valid [of kvs "''columns''"] by (auto simp: valid_row_change_def)
  from valid obtain od where od: "data_of (JObj kvs) ''identity'' = Inr od"
    using data_of_valid [of kvs "''identity''"] by (auto simp: valid_row_change_def)
  obtain ts where ts: "event_timestamp now date_parse (JObj kvs) = Inr ts"
    using event_timestamp_obj by blast
  show ?thesis
    by (simp add: parse_change_def act op t s nd od ts py_get_def)
qed

lemma parse_wal2json_body:
  "loads raw = Some data \<Longrightarrow> parse_body now date_parse self data = Inr r
     \<Longrightarrow> parse_wal2json loads now date_parse self raw = Inr r"
  by (simp add: parse_wal2json_def)

lemma parse_wal2json_no_event:
  assumes "loads raw = Some data" and "\<And>ev. parse_body now date_parse self data \<noteq> Inr (Some ev)"
  shows "parse_wal2json loads now date_parse self raw = Inr None"
proof (cases "parse_body now date_parse self data")
  case (Inl e)
  then show ?thesis
    using assms(1) by (simp add: parse_wal2json_def split: exn.splits)
next
  case (Inr r)
  with assms(2) have "r = None" by (cases r) auto
  with Inr assms(1) show ?thesis by (simp add: parse_wal2json_def)
qed

lemma action_codes:
  "action_map_get (JStr ''I'') = Inr (Some INSERT)"
  "action_map_get (JStr ''U'') = Inr (Some UPDATE)"
  "action_map_get (JStr ''D'') = Inr (Some DELETE)"
  "action_map_get (JStr ''T'') = Inr (Some TRUNCATE)"
  by (simp_all add: action_map_get_def)

lemma get_action_code:
  assumes "action_code kvs = Some a" and "a \<noteq> []"
  shows "get_action (JObj kvs) = Inr (JStr a)"
proof (cases "map_of kvs ''action''")
  case None
  with assms show ?thesis
    by (auto simp: action_code_def get_action_def py_get_def split: option.splits json.splits)
next
  case (Some v)
  with assms have "v = JStr a"
    by (cases v) (simp_all add: action_code_def)
  with Some assms(2) show ?thesis
    by (simp add: get_action_def py_get_def)
qed

text \<open>
  Claim C7. A valid change payload whose action code (its \<open>action\<close> field, or its
  \<open>kind\<close> field when it has no \<open>action\<close>) is I, U, D or T parses to a change event
  whose operation is Insert, Update, Delete or Truncate respectively and whose table and
  schema are the payload's \<open>table\<close> and \<open>schema\<close> fields; a payload whose action code
  is B or C yields no event.
\<close>

theorem parse_wal2json_valid_payload:
  assumes "loads raw = Some data"
    and "change_record data = Some (JObj kvs)"
    and "action_code kvs = Some a"
  shows "(a = ''I'' \<and> valid_row_change kvs \<longrightarrow>
            (\<exists>ev. parse_wal2json loads now date_parse self raw = Inr (Some ev)
               \<and> operation ev = INSERT
               \<and> map_of kvs ''table'' = Some (table ev)
               \<and> map_of kvs ''schema'' = Some (schema ev)))
       \<and> (a = ''U'' \<and> valid_row_change kvs \<longrightarrow>
            (\<exists>ev. parse_wal2json loads now date_parse self raw = Inr (Some ev)
               \<and> operation ev = UPDATE
               \<and> map_of kvs ''table'' = Some (table ev)
               \<and> map_of kvs ''schema'' = Some (schema ev)))
       \<and> (a = ''D'' \<and> valid_row_change kvs \<longrightarrow>
            (\<exists>ev. parse_wal2json loads now date_parse self raw = Inr (Some ev)
               \<and> operation ev = DELETE
               \<and> map_of kvs ''table'' = Some (table ev)
               \<and> map_of kvs ''schema'' = Some (schema ev)))
       \<and> (a = ''T'' \<and> valid_row_change kvs \<longrightarrow>
            (\<exists>ev. parse_wal2json loads now date_parse self raw = Inr (Some ev)
               \<and> operation ev = TRUNCATE
               \<and> map_of kvs ''table'' = Some (table ev)
               \<and> map_of kvs ''schema'' = Some (schema ev)))
       \<and> (a = ''B'' \<or> a = ''C'' \<longrightarrow>
            parse_wal2json loads now date_parse self raw = Inr None)"
proof -
  obtain dkvs where d: "data = JObj dkvs"
    using assms(2) change_record_obj by blast
  have sel: "select_change (JObj dkvs) = Inr (Some (JObj kvs))"
    using assms(2) unfolding d by (rule select_change_record)
  have body: "parse_body now date_parse self (JObj dkvs)
               = parse_change now date_parse self (JObj dkvs) (JObj kvs)"
    by (simp add: parse_body_def sel)
  have act: "get_action (JObj kvs) = Inr (JStr a)" if "a \<noteq> []"
    using assms(3) that by (rule get_action_code)
  have row: "\<exists>ev. parse_wal2json loads now date_parse self raw = Inr (Some ev)
               \<and> operation ev = op
               \<and> map_of kvs ''table'' = Some (table ev)
               \<and> map_of kvs ''schema'' = Some (schema ev)"
    if "action_map_get (JStr a) = Inr (Some op)" "a \<noteq> ''B''" "a \<noteq> ''C''" "valid_row_change kvs" for op
  proof -
    have "a \<noteq> []"
      using that(1) by (auto simp: action_map_get_def)
    from parse_change_valid [OF act [OF this] that, of now date_parse self dkvs]
    obtain ev where ev: "parse_change now date_parse self (JObj dkvs) (JObj kvs) = Inr (Some ev)"
      "operation ev = op" "map_of kvs ''table'' = Some (table ev)"
      "map_of kvs ''schema'' = Some (schema ev)"
      by blast
    have "parse_wal2json loads now date_parse self raw = Inr (Some ev)"
      using assms(1) by (rule parse_wal2json_body) (simp add: body d ev(1))
    with ev show ?thesis by blast
  qed
  have ctl: "parse_wal2json loads now date_parse self raw = Inr None" if "a = ''B'' \<or> a = ''C''"
    using assms(1) by (rule parse_wal2json_body) (use that act in \<open>auto simp: body d parse_change_def\<close>)
  show ?thesis
    using row [of INSERT] row [of UPDATE] row [of DELETE] row [of TRUNCATE] ctl
    by (auto simp: action_codes)
qed

theorem parse_wal2json_valid_payload_witness:
  "\<exists>ev. parse_wal2json (\<lambda>_. Some (JObj example_columns)) 0 (\<lambda>_. None) example_listener [] = Inr (Some ev)
      \<and> operation ev = INSERT
      \<and> map_of example_columns ''table'' = Some (table ev)
      \<and> map_of example_columns ''schema'' = Some (schema ev)"
  using parse_wal2json_valid_payload
    [of "\<lambda>_. Some (JObj example_columns)" "[]" "JObj example_columns" example_columns "''I''"
        0 "\<lambda>_. None" example_listener]
  by (simp add: change_record_def example_columns_def action_code_def
      valid_row_change_def valid_columns_def)

lemma parse_change_lacks_table:
  assumes "lacks_table kvs"
  shows "parse_change now date_parse self (JObj dkvs) (JObj kvs) \<noteq> Inr (Some ev)"
proof -
  obtain v where v: "py_get (JObj kvs) ''table'' = Inr v" "\<not> truthy v"
    using assms by (auto simp: lacks_table_def py_get_def split: option.splits)
  show ?thesis
  proof (cases "get_action (JObj kvs)")
    case (Inl e)
    then show ?thesis by (simp add: parse_change_def)
  next
    case act: (Inr a)
    show ?thesis
    proof (cases "action_map_get a")
      case (Inl e)
      then show ?thesis by (simp add: parse_change_def act)
    next
      case (Inr operation)
      then show ?thesis
        by (cases operation) (simp_all add: parse_change_def act v)
    qed
  qed
qed

text \<open>
  Claim C9. A payload that is not valid JSON, or whose change record lacks a table name,
  makes the parser return no event instead of raising; the message is then acknowledged
  without a callback and the listener goes on.
\<close>

theorem parse_wal2json_drops_malformed:
  assumes "malformed loads (payload msg)"
  shows "parse_wal2json loads now date_parse self (payload msg) = Inr None
       \<and> process_message loads now date_parse callback self msg m =
           (self\<lparr>current_position := Some (str_int (data_start msg))\<rparr>, m, [data_start msg])"
proof -
  have none: "parse_wal2json loads now date_parse self' (payload msg) = Inr None" for self'
  proof (cases "loads (payload msg)")
    case None
    then show ?thesis by (simp add: parse_wal2json_def)
  next
    case (Some data)
    with assms obtain kvs where c: "change_record data = Some (JObj kvs)" and l: "lacks_table kvs"
      by (auto simp: malformed_def split: option.splits json.splits)
    obtain dkvs where d: "data = JObj dkvs"
      using c change_record_obj by blast
    have "parse_body now date_parse self' data \<noteq> Inr (Some ev)" for ev
      using select_change_record [OF c] parse_change_lacks_table [OF l]
      by (simp add: parse_body_def d)
    with Some show ?thesis by (rule parse_wal2json_no_event)
  qed
  show ?thesis
    by (simp add: none process_message_def Let_def)
qed

theorem parse_wal2json_drops_malformed_witness:
  "parse_wal2json (\<lambda>_. None) 0 (\<lambda>_. None) example_listener
       (payload \<lparr>payload = ''{not json'', data_start = 42\<rparr>) = Inr None
   \<and> process_message (\<lambda>_. None) 0 (\<lambda>_. None) (\<lambda>ev m. (None, m)) example_listener
       \<lparr>payload = ''{not json'', data_start = 42\<rparr> (0::nat) =
       (example_listener\<lparr>current_position := Some (str_int (data_start \<lparr>payload = ''{not json'', data_start = 42\<rparr>))\<rparr>,
        0, [data_start \<lparr>payload = ''{not json'', data_start = 42\<rparr>])"
  using parse_wal2json_drops_malformed
    [of "\<lambda>_. None" "\<lparr>payload = ''{not json'', data_start = 42\<rparr>" 0 "\<lambda>_. None" example_listener
        "\<lambda>ev m. (None, m)" "0::nat"]
  by (simp add: malformed_def)

lemma bind_exn_eq_Inr: "bind_exn m f = Inr y \<longleftrightarrow> (\<exists>x. m = Inr x \<and> f x = Inr y)"
  by (cases m) simp_all

lemma derive_primary_key_spec: "derive_primary_key old new = spec_primary_key old new"
proof (cases old)
  case None
  then show ?thesis
    by (cases new; cases "the new")
       (simp_all add: derive_primary_key_def spec_primary_key_def extract_pk_from_data_def)
next
  case (Some od)
  then show ?thesis
    by (cases od; cases new; cases "the new")
       (simp_all add: derive_primary_key_def spec_primary_key_def extract_pk_from_data_def)
qed

lemma parse_change_event:
  assumes "parse_change now date_parse self data change = Inr (Some ev)"
  shows "data_of change ''columns'' = Inr (new_data ev)
       \<and> data_of change ''identity'' = Inr (old_data ev)
       \<and> primary_key ev = derive_primary_key (old_data ev) (new_data ev)"
  using assms
  by (auto simp: parse_change_def bind_exn_eq_Inr split: if_splits option.splits)

lemma parse_body_event:
  assumes "parse_body now date_parse self data = Inr (Some ev)"
  shows "\<exists>change. select_change data = Inr (Some change)
            \<and> parse_change now date_parse self data change = Inr (Some ev)"
  using assms by (auto simp: parse_body_def bind_exn_eq_Inr split: option.splits)

lemma parse_wal2json_event:
  assumes "parse_wal2json loads now date_parse self raw = Inr (Some ev)"
  shows "\<exists>data. loads raw = Some data \<and> parse_body now date_parse self data = Inr (Some ev)"
  using assms by (auto simp: parse_wal2json_def split: option.splits sum.splits exn.splits)

lemma dict_set_not_empty: "dict_set d k v \<noteq> []"
  by (induction d k v rule: dict_set.induct) auto

lemma columns_dict_not_empty:
  "columns_dict cs acc = Inr d \<Longrightarrow> cs \<noteq> [] \<or> acc \<noteq> [] \<Longrightarrow> d \<noteq> []"
proof (induction cs arbitrary: acc)
  case Nil
  then show ?case by simp
next
  case (Cons c cs)
  from Cons.prems(1) obtain k v where "columns_dict cs (dict_set acc k v) = Inr d"
    by (auto split: sum.splits if_splits)
  then show ?case
    using Cons.IH dict_set_not_empty by blast
qed

lemma data_of_identity_columns:
  assumes "map_of kvs key = Some (JArr (c # cs))" and "data_of (JObj kvs) key = Inr r"
  shows "\<exists>d. r = Some d \<and> d \<noteq> []"
  using assms columns_dict_not_empty [of "c # cs" "[]"]
  by (auto simp: data_of_def bind_exn_eq_Inr)

lemma data_of_absent:
  assumes "map_of kvs key = None"
  shows "data_of (JObj kvs) key = Inr None"
  using assms by (simp add: data_of_def)

lemma spec_primary_key_old: "d \<noteq> [] \<Longrightarrow> spec_primary_key (Some d) new = Some d"
  by (cases d) (simp_all add: spec_primary_key_def)

text \<open>
  Claim C8. The primary key of a parsed event is a copy of old-data when the payload
  carries identity columns, otherwise \<open>{"id": v}\<close> when new-data has a column named
  \<open>id\<close> with value \<open>v\<close>, otherwise absent; the example insert on \<open>patients\<close> with
  \<open>id = 7\<close> and \<open>name = "Amy"\<close> yields an Insert on \<open>public.patients\<close> with that
  new-data and the primary key \<open>{"id": 7}\<close>.
\<close>

theorem primary_key_derivation:
  "(parse_wal2json loads now date_parse self raw = Inr (Some ev) \<longrightarrow>
      primary_key ev = spec_primary_key (old_data ev) (new_data ev))
   \<and> (parse_wal2json loads now date_parse self raw = Inr (Some ev)
        \<and> loads raw = Some data \<and> change_record data = Some (JObj kvs) \<longrightarrow>
        (\<forall>c cs. map_of kvs ''identity'' = Some (JArr (c # cs)) \<longrightarrow>
           (\<exists>d. d \<noteq> [] \<and> old_data ev = Some d \<and> primary_key ev = Some d))
        \<and> (map_of kvs ''identity'' = None \<longrightarrow> old_data ev = None))
   \<and> (loads raw = Some (JObj example_columns) \<longrightarrow>
        (\<exists>e. parse_wal2json loads now date_parse self raw = Inr (Some e)
           \<and> operation e = INSERT
           \<and> table e = JStr ''patients''
           \<and> schema e = JStr ''public''
           \<and> new_data e = Some [(JStr ''id'', JInt 7), (JStr ''name'', JStr ''Amy'')]
           \<and> primary_key e = Some [(JStr ''id'', JInt 7)]))"
proof (intro conjI impI)
  assume "parse_wal2json loads now date_parse self raw = Inr (Some ev)"
  then obtain data' change where "parse_change now date_parse self data' change = Inr (Some ev)"
    using parse_wal2json_event parse_body_event by blast
  then show "primary_key ev = spec_primary_key (old_data ev) (new_data ev)"
    using parse_change_event derive_primary_key_spec by simp
next
  assume a: "parse_wal2json loads now date_parse self raw = Inr (Some ev)
        \<and> loads raw = Some data \<and> change_record data = Some (JObj kvs)"
  then have "parse_body now date_parse self data = Inr (Some ev)"
    using parse_wal2json_event by fastforce
  then have "parse_change now date_parse self data (JObj kvs) = Inr (Some ev)"
    using a parse_body_event select_change_record by fastforce
  then have ev: "data_of (JObj kvs) ''identity'' = Inr (old_data ev)"
    "primary_key ev = spec_primary_key (old_data ev) (new_data ev)"
    using parse_change_event derive_primary_key_spec by simp_all
  show "\<forall>c cs. map_of kvs ''identity'' = Some (JArr (c # cs)) \<longrightarrow>
           (\<exists>d. d \<noteq> [] \<and> old_data ev = Some d \<and> primary_key ev = Some d)"
    using ev data_of_identity_columns spec_primary_key_old by metis
  show "map_of kvs ''identity'' = None \<Longrightarrow> old_data ev = None"
    using ev(1) data_of_absent by simp
next
  assume l: "loads raw = Some (JObj example_columns)"
  have "parse_body now date_parse self (JObj example_columns) =
          Inr (Some \<lparr>operation = INSERT, table = JStr ''patients'', schema = JStr ''public'',
                     timestamp = now, database_type = ''postgres'', old_data = None,
                     new_data = Some [(JStr ''id'', JInt 7), (JStr ''name'', JStr ''Amy'')],
                     primary_key = Some [(JStr ''id'', JInt 7)], ddl_statement = None,
                     transaction_id = JNull, lsn = position_value (current_position self),
                     position = None,
                     metadata =
                       [(''publication'', JStr (publication_name self)),
                        (''slot'', JStr (slot_name self)),
                        (''plugin'', JStr ''wal2json''), (''nextlsn'', JNull)]\<rparr>)"
    by (simp add: parse_body_def select_change_def example_columns_def parse_change_def
        get_action_def py_get_def action_map_get_def data_of_def derive_primary_key_def
        extract_pk_from_data_def py_key_eq_def event_timestamp_def)
  from parse_wal2json_body [of loads raw, OF l this]
  show "\<exists>e. parse_wal2json loads now date_parse self raw = Inr (Some e)
           \<and> operation e = INSERT
           \<and> table e = JStr ''patients''
           \<and> schema e = JStr ''public''
           \<and> new_data e = Some [(JStr ''id'', JInt 7), (JStr ''name'', JStr ''Amy'')]
           \<and> primary_key e = Some [(JStr ''id'', JInt 7)]"
    by simp
qed

theorem primary_key_derivation_witness:
  "parse_wal2json (\<lambda>_. Some (JObj example_columns)) 0 (\<lambda>_. None) example_listener [] = Inr (Some example_event)
   \<and> primary_key example_event = spec_primary_key (old_data example_event) (new_data example_event)
   \<and> old_data example_event = None
   \<and> primary_key example_event = Some [(JStr ''id'', JInt 7)]"
proof -
  have p: "parse_wal2json (\<lambda>_. Some (JObj example_columns)) 0 (\<lambda>_. None) example_listener []
             = Inr (Some example_event)"
    by (simp add: parse_wal2json_def parse_body_def select_change_def example_columns_def
        parse_change_def get_action_def py_get_def action_map_get_def data_of_def
        derive_primary_key_def extract_pk_from_data_def py_key_eq_def event_timestamp_def
        example_event_def example_listener_def position_value_def)
  have c: "change_record (JObj example_columns) = Some (JObj example_columns)"
    "map_of example_columns ''identity'' = None"
    by (simp_all add: change_record_def example_columns_def)
  show ?thesis
    using primary_key_derivation
      [of "\<lambda>_. Some (JObj example_columns)" 0 "\<lambda>_. None" example_listener "[]" example_event
          "JObj example_columns" example_columns]
    by (simp add: p c) (simp add: example_event_def)
qed

subsection \<open>Position tracking\<close>

text \<open>
  Claim C3. \<open>_process_message\<close> sets \<open>current_position\<close> from the message's offset
  before it parses the payload: after any message, parsed or not, the position is the
  offset, and the outcome does not depend on the position held before.
\<close>

theorem process_message_sets_position:
  "current_position (fst (process_message loads now date_parse callback self msg m))
     = Some (str_int (data_start msg))
   \<and> fst (process_message loads now date_parse callback self msg m)
     = self\<lparr>current_position := Some (str_int (data_start msg))\<rparr>
   \<and> process_message loads now date_parse callback (self\<lparr>current_position := p\<rparr>) msg m
     = process_message loads now date_parse callback self msg m"
  by (simp add: process_message_def Let_def split: sum.splits option.splits prod.splits)

lemma str_int_examples: "str_int 0 = ''0''" "str_int 12345 = ''12345''" "str_int (- 70) = ''-70''"
  by (simp_all add: str_int_def digit_char_def)

subsection \<open>The manager's dispatch loop\<close>

lemma emit_fields [simp]:
  "trace (emit a s) = trace s @ [a]"
  "metrics (emit a s) = metrics s"
  "ticks (emit a s) = ticks s"
  "event_queue (emit a s) = event_queue s"
  "handlers (emit a s) = handlers s"
  "listeners (emit a s) = listeners s"
  "batch_size (emit a s) = batch_size s"
  "batch_timeout (emit a s) = batch_timeout s"
  "enable_batching (emit a s) = enable_batching s"
  "batch_thread (emit a s) = batch_thread s"
  "stop_batching (emit a s) = stop_batching s"
  by (simp_all add: emit_def)

lemma record_batch_success_fields [simp]:
  "trace (record_batch_success n s) = trace s @ [Acquire MetricsLock, Release MetricsLock]"
  "events_failed (metrics (record_batch_success n s)) = events_failed (metrics s)"
  "errors (metrics (record_batch_success n s)) = errors (metrics s)"
  "event_queue (record_batch_success n s) = event_queue s"
  "handlers (record_batch_success n s) = handlers s"
  "listeners (record_batch_success n s) = listeners s"
  "batch_size (record_batch_success n s) = batch_size s"
  "batch_timeout (record_batch_success n s) = batch_timeout s"
  "enable_batching (record_batch_success n s) = enable_batching s"
  "batch_thread (record_batch_success n s) = batch_thread s"
  by (simp_all add: record_batch_success_def with_metrics_lock_def)

lemma record_batch_failure_fields [simp]:
  "trace (record_batch_failure clock name msg n s) = trace s @ [Acquire MetricsLock, Release MetricsLock]"
  "events_failed (metrics (record_batch_failure clock name msg n s)) = events_failed (metrics s) + int n"
  "errors (metrics (record_batch_failure clock name msg n s))
     = errors (metrics s) @ [BatchError name msg (clock (ticks s)) n]"
  "event_queue (record_batch_failure clock name msg n s) = event_queue s"
  "handlers (record_batch_failure clock name msg n s) = handlers s"
  "listeners (record_batch_failure clock name msg n s) = listeners s"
  "batch_size (record_batch_failure clock name msg n s) = batch_size s"
  "batch_timeout (record_batch_failure clock name msg n s) = batch_timeout s"
  "enable_batching (record_batch_failure clock name msg n s) = enable_batching s"
  "batch_thread (record_batch_failure clock name msg n s) = batch_thread s"
  by (simp_all add: record_batch_failure_def with_metrics_lock_def read_clock_def)

lemma predicate_returns_events:
  "predicate_returns h events \<longleftrightarrow> (\<exists>evs. handler_events h events = Inr evs)"
  by (cases "handler_events h events") (simp_all add: predicate_returns_def)

lemma dispatch_batch_one_cases:
  obtains (refuse) e where "handler_events h events = Inl e"
      "dispatch_batch_one clock events i h s = (Some e, s)"
  | (skip) "handler_events h events = Inr []"
      "dispatch_batch_one clock events i h s = (None, s)"
  | (return) evs where "handler_events h events = Inr evs" "evs \<noteq> []"
      "h_handle_batch h evs = None"
      "dispatch_batch_one clock events i h s =
         (None, record_batch_success (length evs) (emit (HandleBatch i evs) s))"
  | (raise) evs msg where "handler_events h events = Inr evs" "evs \<noteq> []"
      "h_handle_batch h evs = Some msg"
      "dispatch_batch_one clock events i h s =
         (None, record_batch_failure clock (h_class_name h) msg (length evs)
                  (emit (HandleBatch i evs) s))"
proof (cases "handler_events h events")
  case (Inl e)
  then show ?thesis
    using refuse by (simp add: dispatch_batch_one_def)
next
  case (Inr evs)
  show ?thesis
  proof (cases "evs = []")
    case True
    with Inr show ?thesis
      using skip by (simp add: dispatch_batch_one_def)
  next
    case False
    with Inr show ?thesis
      using return [of evs] raise [of evs]
      by (cases "h_handle_batch h evs") (simp_all add: dispatch_batch_one_def)
  qed
qed

lemma dispatch_batch_one_fields [simp]:
  "event_queue (snd (dispatch_batch_one clock events i h s)) = event_queue s"
  "handlers (snd (dispatch_batch_one clock events i h s)) = handlers s"
  "listeners (snd (dispatch_batch_one clock events i h s)) = listeners s"
  "batch_size (snd (dispatch_batch_one clock events i h s)) = batch_size s"
  "batch_timeout (snd (dispatch_batch_one clock events i h s)) = batch_timeout s"
  "enable_batching (snd (dispatch_batch_one clock events i h s)) = enable_batching s"
  "batch_thread (snd (dispatch_batch_one clock events i h s)) = batch_thread s"
  by (rule dispatch_batch_one_cases [where h=h and events=events and clock=clock and i=i and s=s]; simp)+

lemma trace_dispatch_batch_one:
  "trace (snd (dispatch_batch_one clock events i h s))
     = trace s @ (case handler_events h events of
                    Inl e \<Rightarrow> []
                  | Inr evs \<Rightarrow>
                      if evs = [] then []
                      else [HandleBatch i evs, Acquire MetricsLock, Release MetricsLock])"
  by (rule dispatch_batch_one_cases [where h=h and events=events and clock=clock and i=i and s=s])
     simp_all

lemma events_failed_dispatch_batch_one:
  "events_failed (metrics (snd (dispatch_batch_one clock events i h s)))
     = events_failed (metrics s)
       + (case handler_events h events of
            Inl e \<Rightarrow> 0
          | Inr evs \<Rightarrow> if evs \<noteq> [] \<and> h_handle_batch h evs \<noteq> None then int (length evs) else 0)"
  by (rule dispatch_batch_one_cases [where h=h and events=events and clock=clock and i=i and s=s])
     simp_all

lemma errors_dispatch_batch_one:
  "\<exists>ext. errors (metrics (snd (dispatch_batch_one clock events i h s))) = errors (metrics s) @ ext"
  by (rule dispatch_batch_one_cases [where h=h and events=events and clock=clock and i=i and s=s])
     simp_all

lemma dispatch_batch_one_returns:
  "fst (dispatch_batch_one clock events i h s) = None \<longleftrightarrow> predicate_returns h events"
  by (rule dispatch_batch_one_cases [where h=h and events=events and clock=clock and i=i and s=s])
     (simp_all add: predicate_returns_def)

lemma dispatch_batch_Cons:
  "dispatch_batch clock events i (h # hs) s =
     (if predicate_returns h events
      then dispatch_batch clock events (Suc i) hs (snd (dispatch_batch_one clock events i h s))
      else dispatch_batch_one clock events i h s)"
  by (rule dispatch_batch_one_cases [where h=h and events=events and clock=clock and i=i and s=s])
     (simp_all add: predicate_returns_def)

lemma dispatch_batch_fields [simp]:
  "event_queue (snd (dispatch_batch clock events i hs s)) = event_queue s"
  "handlers (snd (dispatch_batch clock events i hs s)) = handlers s"
  "listeners (snd (dispatch_batch clock events i hs s)) = listeners s"
  "batch_size (snd (dispatch_batch clock events i hs s)) = batch_size s"
  "batch_timeout (snd (dispatch_batch clock events i hs s)) = batch_timeout s"
  "enable_batching (snd (dispatch_batch clock events i hs s)) = enable_batching s"
  "batch_thread (snd (dispatch_batch clock events i hs s)) = batch_thread s"
  by (induction hs arbitrary: i s; simp add: dispatch_batch_Cons del: dispatch_batch.simps(2))+

lemma trace_dispatch_batch:
  "trace (snd (dispatch_batch clock events i hs s)) = trace s @ batch_actions events i hs"
proof (induction hs arbitrary: i s)
  case Nil
  then show ?case by simp
next
  case (Cons h hs)
  show ?case
    unfolding dispatch_batch_Cons
    by (cases "handler_events h events")
       (simp_all add: Cons.IH trace_dispatch_batch_one predicate_returns_def)
qed

lemma events_failed_dispatch_batch:
  "events_failed (metrics (snd (dispatch_batch clock events i hs s)))
     = events_failed (metrics s) + failed_count events hs"
proof (induction hs arbitrary: i s)
  case Nil
  then show ?case by simp
next
  case (Cons h hs)
  show ?case
    unfolding dispatch_batch_Cons
    by (cases "handler_events h events")
       (simp_all add: Cons.IH events_failed_dispatch_batch_one predicate_returns_def)
qed

lemma errors_dispatch_batch:
  "\<exists>ext. errors (metrics (snd (dispatch_batch clock events i hs s))) = errors (metrics s) @ ext"
proof (induction hs arbitrary: i s)
  case Nil
  then show ?case by simp
next
  case (Cons h hs)
  obtain e1 where e1: "errors (metrics (snd (dispatch_batch_one clock events i h s)))
                         = errors (metrics s) @ e1"
    using errors_dispatch_batch_one by blast
  obtain e2 where
    "errors (metrics (snd (dispatch_batch clock events (Suc i) hs (snd (dispatch_batch_one clock events i h s)))))
       = errors (metrics (snd (dispatch_batch_one clock events i h s))) @ e2"
    using Cons.IH by blast
  with e1 show ?case
    unfolding dispatch_batch_Cons by auto
qed

lemma dispatch_batch_returns:
  "\<forall>h \<in> set hs. predicate_returns h events \<Longrightarrow> fst (dispatch_batch clock events i hs s) = None"
  by (induction hs arbitrary: i s) (simp_all add: dispatch_batch_Cons del: dispatch_batch.simps(2))

lemma dispatch_batch_append:
  "\<forall>h \<in> set xs. predicate_returns h events \<Longrightarrow>
     dispatch_batch clock events i (xs @ ys) s
       = dispatch_batch clock events (i + length xs) ys (snd (dispatch_batch clock events i xs s))"
  by (induction xs arbitrary: i s) (simp_all add: dispatch_batch_Cons del: dispatch_batch.simps(2))

lemma failed_count_append:
  "\<forall>h \<in> set xs. predicate_returns h events \<Longrightarrow>
     failed_count events (xs @ ys) = failed_count events xs + failed_count events ys"
  by (induction xs) (auto simp: predicate_returns_events)

lemma flushes_append: "flushes (xs @ ys) = flushes xs @ flushes ys"
  by (induction xs rule: flushes.induct) simp_all

lemma delivered_append: "delivered j (xs @ ys) = delivered j xs @ delivered j ys"
  by (induction j xs rule: delivered.induct) simp_all

lemma flushes_batch_actions: "flushes (batch_actions events i hs) = []"
  by (induction hs arbitrary: i) (simp_all add: flushes_append split: sum.splits)

lemma delivered_batch_actions_before: "j < i \<Longrightarrow> delivered j (batch_actions events i hs) = []"
  by (induction hs arbitrary: i) (simp_all add: delivered_append split: sum.splits)

lemma delivered_batch_actions:
  assumes "j < length hs" and "\<forall>h \<in> set (take (Suc j) hs). predicate_returns h events"
  shows "handler_events (hs ! j) events = Inr (delivered (i + j) (batch_actions events i hs))"
  using assms
proof (induction hs arbitrary: i j)
  case Nil
  then show ?case by simp
next
  case (Cons h hs)
  from Cons.prems(2) obtain evs where evs: "handler_events h events = Inr evs"
    by (auto simp: predicate_returns_events)
  show ?case
  proof (cases j)
    case 0
    then show ?thesis
      by (simp add: evs delivered_append delivered_batch_actions_before)
  next
    case (Suc k)
    with Cons.prems have "k < length hs" "\<forall>h \<in> set (take (Suc k) hs). predicate_returns h events"
      by simp_all
    from Cons.IH [OF this, of "Suc i"] Suc show ?thesis
      by (simp add: evs delivered_append)
  qed
qed

lemma since_append: "trace s' = trace s @ new \<Longrightarrow> since s s' = new"
  by (simp add: since_def)

lemma trace_process_batch:
  "trace (snd (process_batch clock events s))
     = trace s @ ProcessBatch events # (if events = [] then [] else batch_actions events 0 (handlers s))"
  by (simp add: process_batch_def Let_def trace_dispatch_batch)

lemma process_batch_fields [simp]:
  "event_queue (snd (process_batch clock events s)) = event_queue s"
  "handlers (snd (process_batch clock events s)) = handlers s"
  "listeners (snd (process_batch clock events s)) = listeners s"
  "batch_size (snd (process_batch clock events s)) = batch_size s"
  "batch_timeout (snd (process_batch clock events s)) = batch_timeout s"
  "enable_batching (snd (process_batch clock events s)) = enable_batching s"
  "batch_thread (snd (process_batch clock events s)) = batch_thread s"
  by (simp_all add: process_batch_def Let_def)

lemma process_batch_returns:
  "\<forall>h \<in> set (handlers s). predicate_returns h events \<Longrightarrow> fst (process_batch clock events s) = None"
  by (simp add: process_batch_def Let_def dispatch_batch_returns)

lemma handler_events_example [simp]: "handler_events (example_handler name fails) events = Inr events"
  by (induction events) (simp_all add: example_handler_def)

lemma predicate_returns_example [simp]: "predicate_returns (example_handler name fails) events"
  by (simp add: predicate_returns_def)

lemma dispatch_batch_one_example:
  "events \<noteq> [] \<Longrightarrow>
     dispatch_batch_one clock events i (example_handler name fails) s
       = (None,
          if fails
          then record_batch_failure clock name ''boom'' (length events) (emit (HandleBatch i events) s)
          else record_batch_success (length events) (emit (HandleBatch i events) s))"
  unfolding dispatch_batch_one_def handler_events_example
  by (simp add: example_handler_def)

lemma handler_events_hashing [simp]:
  "handler_events (hashing_handler name) [list_table_event] = Inl TypeError"
  by (simp add: hashing_handler_def graph_can_handle_def list_table_event_def)

lemma predicate_returns_hashing [simp]:
  "\<not> predicate_returns (hashing_handler name) [list_table_event]"
  unfolding predicate_returns_def handler_events_hashing by simp

lemma dispatch_batch_one_hashing:
  "dispatch_batch_one clock [list_table_event] i (hashing_handler name) s = (Some TypeError, s)"
  unfolding dispatch_batch_one_def handler_events_hashing by simp

subsection \<open>Failure isolation\<close>

lemma isolation_manager_handlers:
  "handlers isolation_manager
     = [example_handler ''A'' True, hashing_handler ''GraphSyncHandler'', example_handler ''B'' False]"
  by (simp add: isolation_manager_def add_handler_def init_manager_def)



lemma example_manager_handlers:
  "handlers example_manager
     = [] @ example_handler ''GraphSyncHandler'' True # [] @ example_handler ''EmbeddingSyncHandler'' False # []"
  by (simp add: example_manager_def add_handler_def init_manager_def)


subsection \<open>Size-triggered flush\<close>

lemma handle_change_batching:
  assumes "enable_batching s"
  shows "trace (snd (handle_change clock event s))
           = trace s @ [Acquire MetricsLock, Release MetricsLock, Acquire QueueLock]
             @ (if batch_size s \<le> int (length (event_queue s)) + 1
                then ProcessBatch (event_queue s @ [event])
                       # batch_actions (event_queue s @ [event]) 0 (handlers s)
                else [])
             @ [Release QueueLock]"
    and "event_queue (snd (handle_change clock event s))
           = (if batch_size s \<le> int (length (event_queue s)) + 1 then []
              else event_queue s @ [event])"
    and "handlers (snd (handle_change clock event s)) = handlers s"
    and "batch_size (snd (handle_change clock event s)) = batch_size s"
    and "batch_timeout (snd (handle_change clock event s)) = batch_timeout s"
    and "enable_batching (snd (handle_change clock event s)) = enable_batching s"
    and "batch_thread (snd (handle_change clock event s)) = batch_thread s"
    and "listeners (snd (handle_change clock event s)) = listeners s"
  using assms
  by (simp_all add: handle_change_def with_metrics_lock_def read_clock_def Let_def
      trace_process_batch)

lemma handle_change_returns:
  assumes "enable_batching s"
    and "batch_size s \<le> int (length (event_queue s)) + 1 \<longrightarrow>
           (\<forall>h \<in> set (handlers s). predicate_returns h (event_queue s @ [event]))"
  shows "fst (handle_change clock event s) = None"
  using assms
  by (simp add: handle_change_def with_metrics_lock_def read_clock_def Let_def
      process_batch_returns)


lemma example_manager_fields:
  "enable_batching example_manager" "batch_size example_manager = 2"
  "event_queue example_manager = []"
  "handlers example_manager
     = [example_handler ''GraphSyncHandler'' True, example_handler ''EmbeddingSyncHandler'' False]"
  by (simp_all add: example_manager_def add_handler_def init_manager_def)

lemma example_manager_one_event:
  "enable_batching (snd (handle_change (\<lambda>k. 0) example_event example_manager))"
  "batch_size (snd (handle_change (\<lambda>k. 0) example_event example_manager)) = 2"
  "event_queue (snd (handle_change (\<lambda>k. 0) example_event example_manager)) = [example_event]"
  "handlers (snd (handle_change (\<lambda>k. 0) example_event example_manager))
     = [example_handler ''GraphSyncHandler'' True, example_handler ''EmbeddingSyncHandler'' False]"
  using handle_change_batching [OF example_manager_fields(1), of "\<lambda>k. 0" example_event]
  by (simp_all add: example_manager_fields)


subsection \<open>Shutdown\<close>

lemma fold_emit_trace:
  "trace (fold (\<lambda>(name, listener). emit (f name)) ls s) = trace s @ map (\<lambda>(name, listener). f name) ls"
  by (induction ls arbitrary: s) (simp_all add: case_prod_beta)

lemma fold_emit_fields [simp]:
  "event_queue (fold (\<lambda>(name, listener). emit (f name)) ls s) = event_queue s"
  "handlers (fold (\<lambda>(name, listener). emit (f name)) ls s) = handlers s"
  "batch_thread (fold (\<lambda>(name, listener). emit (f name)) ls s) = batch_thread s"
  "enable_batching (fold (\<lambda>(name, listener). emit (f name)) ls s) = enable_batching s"
  "batch_size (fold (\<lambda>(name, listener). emit (f name)) ls s) = batch_size s"
  "batch_timeout (fold (\<lambda>(name, listener). emit (f name)) ls s) = batch_timeout s"
  "listeners (fold (\<lambda>(name, listener). emit (f name)) ls s) = listeners s"
  by (induction ls arbitrary: s; simp add: case_prod_beta)+

lemma flushes_listener_stops: "flushes (map (\<lambda>(name, listener). ListenerStop name) ls) = []"
  by (induction ls) (simp_all add: case_prod_beta)

lemma delivered_listener_stops: "delivered i (map (\<lambda>(name, listener). ListenerStop name) ls) = []"
  by (induction ls) (simp_all add: case_prod_beta)

lemma start_all_starts_thread:
  assumes "listeners s \<noteq> []" and "enable_batching s"
  shows "batch_thread (start_all s)" and "enable_batching (start_all s)"
    and "event_queue (start_all s) = event_queue s" and "handlers (start_all s) = handlers s"
    and "batch_size (start_all s) = batch_size s"
    and "batch_timeout (start_all s) = batch_timeout s"
  using assms by (simp_all add: start_all_def Let_def)

lemma stop_all_flush:
  assumes "batch_thread s" and "event_queue s \<noteq> []"
  shows "since s (snd (stop_all clock s))
           = map (\<lambda>(name, listener). ListenerStop name) (listeners s)
             @ ProcessBatch (event_queue s) # batch_actions (event_queue s) 0 (handlers s)"
    and "fst (stop_all clock s)
           = fst (process_batch clock (event_queue s)
                   ((fold (\<lambda>(name, listener). emit (ListenerStop name)) (listeners s) s)
                      \<lparr>stop_batching := True\<rparr>))"
    and "event_queue (snd (stop_all clock s))
           = (if fst (stop_all clock s) = None then [] else event_queue s)"
proof -
  let ?s2 = "(fold (\<lambda>(name, listener). emit (ListenerStop name)) (listeners s) s)\<lparr>stop_batching := True\<rparr>"
  obtain r s3 where pb: "process_batch clock (event_queue s) ?s2 = (r, s3)"
    by (cases "process_batch clock (event_queue s) ?s2")
  have s3: "trace s3 = trace s @ map (\<lambda>(name, listener). ListenerStop name) (listeners s)
              @ ProcessBatch (event_queue s) # batch_actions (event_queue s) 0 (handlers s)"
    "event_queue s3 = event_queue s"
    using trace_process_batch [of clock "event_queue s" ?s2]
      process_batch_fields(1) [of clock "event_queue s" ?s2] assms(2)
    by (simp_all add: pb fold_emit_trace)
  have st: "stop_all clock s = (case r of Some e \<Rightarrow> (Some e, s3) | None \<Rightarrow> (None, s3\<lparr>event_queue := []\<rparr>))"
    using assms by (simp add: stop_all_def Let_def pb split: option.splits)
  show "since s (snd (stop_all clock s))
           = map (\<lambda>(name, listener). ListenerStop name) (listeners s)
             @ ProcessBatch (event_queue s) # batch_actions (event_queue s) 0 (handlers s)"
    by (rule since_append) (simp add: st s3 split: option.splits)
  show "fst (stop_all clock s) = fst (process_batch clock (event_queue s) ?s2)"
    by (simp add: st pb split: option.splits)
  show "event_queue (snd (stop_all clock s))
           = (if fst (stop_all clock s) = None then [] else event_queue s)"
    by (simp add: st s3 split: option.splits)
qed

lemma stalled_manager_fields:
  "batch_thread stalled_manager" "enable_batching stalled_manager"
  "event_queue stalled_manager = [list_table_event]" "batch_size stalled_manager = 2"
  "handlers stalled_manager = [hashing_handler ''GraphSyncHandler'']"
proof -
  let ?r = "snd (register_listener ''pg'' (example_source False) True
                   (add_handler (hashing_handler ''GraphSyncHandler'') (init_manager 2 5 True)))"
  have r: "listeners ?r \<noteq> []" "enable_batching ?r" "event_queue ?r = []" "batch_size ?r = 2"
    "handlers ?r = [hashing_handler ''GraphSyncHandler'']"
    by (simp_all add: register_listener_def add_handler_def init_manager_def
        example_source_def Let_def)
  note st = start_all_starts_thread [OF r(1,2)]
  note hc = handle_change_batching [OF st(2), of "\<lambda>k. 0" list_table_event]
  show "batch_thread stalled_manager" "enable_batching stalled_manager"
    "event_queue stalled_manager = [list_table_event]" "batch_size stalled_manager = 2"
    "handlers stalled_manager = [hashing_handler ''GraphSyncHandler'']"
    unfolding stalled_manager_def using hc st by (simp_all add: r)
qed

text \<open>
  Claim C6, as stated, fails. The started manager with batch size 2 whose handler has
  the graph-sync predicate holds one queued event whose table is a list. \<open>stop_all\<close>
  calls \<open>_process_batch\<close>, the predicate raises \<open>TypeError\<close>, the exception leaves
  \<open>stop_all\<close> before the queue is cleared: no event reaches the handler and
  \<open>get_status\<close> reports a queue depth of one.
\<close>

theorem stop_all_final_flush_counterexample:
  "batch_thread stalled_manager
   \<and> enable_batching stalled_manager
   \<and> event_queue stalled_manager = [list_table_event]
   \<and> batch_size stalled_manager = 2
   \<and> fst (stop_all epoch_clock stalled_manager) = Some TypeError
   \<and> delivered 0 (since stalled_manager (snd (stop_all epoch_clock stalled_manager))) = []
   \<and> st_queue_size (get_status (snd (stop_all epoch_clock stalled_manager))) = 1"
proof -
  have ne: "event_queue stalled_manager \<noteq> []"
    by (simp add: stalled_manager_fields)
  note flush = stop_all_flush [OF stalled_manager_fields(1) ne, of epoch_clock]
  have r: "fst (stop_all epoch_clock stalled_manager) = Some TypeError"
    unfolding flush(2)
    by (simp add: process_batch_def Let_def stalled_manager_fields dispatch_batch_Cons
        dispatch_batch_one_hashing del: dispatch_batch.simps(2) handler_events.simps)
  have d: "delivered 0 (since stalled_manager (snd (stop_all epoch_clock stalled_manager))) = []"
    unfolding flush(1)
    by (simp add: delivered_append delivered_listener_stops stalled_manager_fields
        del: handler_events.simps)
  have q: "st_queue_size (get_status (snd (stop_all epoch_clock stalled_manager))) = 1"
    by (simp add: get_status_def flush(3) r stalled_manager_fields)
  from r d q show ?thesis
    by (simp add: stalled_manager_fields)
qed

text \<open>
  Claim C6, amended. On a started manager with batching enabled and M queued events,
  \<open>0 < M < batch_size\<close>, provided that no handler's predicate \<open>can_handle\<close> raises on a
  queued event, \<open>stop_all\<close> performs exactly one final flush, which hands those M
  events to the handlers, returns, and \<open>get_status\<close> then reports a queue depth of zero.
\<close>

theorem stop_all_final_flush:
  assumes "batch_thread s" and "enable_batching s"
    and "event_queue s \<noteq> []" and "int (length (event_queue s)) < batch_size s"
    and "\<forall>h \<in> set (handlers s). predicate_returns h (event_queue s)"
  shows "fst (stop_all clock s) = None
       \<and> flushes (since s (snd (stop_all clock s))) = [event_queue s]
       \<and> (\<forall>i < length (handlers s).
             handler_events (handlers s ! i) (event_queue s)
               = Inr (delivered i (since s (snd (stop_all clock s)))))
       \<and> event_queue (snd (stop_all clock s)) = []
       \<and> st_queue_size (get_status (snd (stop_all clock s))) = 0"
proof -
  note flush = stop_all_flush [OF assms(1,3), of clock]
  have r: "fst (stop_all clock s) = None"
    unfolding flush(2) using assms(5) by (intro process_batch_returns) simp
  have "flushes (since s (snd (stop_all clock s))) = [event_queue s]"
    by (simp add: flush(1) flushes_append flushes_listener_stops flushes_batch_actions)
  moreover have "handler_events (handlers s ! i) (event_queue s)
                   = Inr (delivered i (since s (snd (stop_all clock s))))"
    if "i < length (handlers s)" for i
  proof -
    have "\<forall>h \<in> set (take (Suc i) (handlers s)). predicate_returns h (event_queue s)"
      using assms(5) by (meson in_set_takeD)
    from delivered_batch_actions [OF that this, of 0]
    show ?thesis
      unfolding flush(1) by (simp add: delivered_append delivered_listener_stops)
  qed
  moreover have q: "event_queue (snd (stop_all clock s)) = []"
    by (simp add: flush(3) r)
  moreover have "st_queue_size (get_status (snd (stop_all clock s))) = 0"
    by (simp add: get_status_def q)
  ultimately show ?thesis using r by blast
qed

lemma example_started_fields:
  "batch_thread example_started" "enable_batching example_started"
  "event_queue example_started = [example_event]" "batch_size example_started = 2"
  "handlers example_started
     = [example_handler ''GraphSyncHandler'' True, example_handler ''EmbeddingSyncHandler'' False]"
  "batch_timeout example_started = 5"
proof -
  let ?r = "snd (register_listener ''pg'' (example_source False) True example_manager)"
  have r: "listeners ?r \<noteq> []" "enable_batching ?r" "event_queue ?r = []" "batch_size ?r = 2"
    "handlers ?r
       = [example_handler ''GraphSyncHandler'' True, example_handler ''EmbeddingSyncHandler'' False]"
    "batch_timeout ?r = 5"
    by (simp_all add: register_listener_def example_manager_def add_handler_def init_manager_def
        example_source_def Let_def)
  note st = start_all_starts_thread [OF r(1,2)]
  note hc = handle_change_batching [OF st(2), of "\<lambda>k. 0" example_event]
  show "batch_thread example_started" "enable_batching example_started"
    "event_queue example_started = [example_event]" "batch_size example_started = 2"
    "handlers example_started
       = [example_handler ''GraphSyncHandler'' True, example_handler ''EmbeddingSyncHandler'' False]"
    "batch_timeout example_started = 5"
    unfolding example_started_def using hc st by (simp_all add: r)
qed

theorem stop_all_final_flush_witness:
  "fst (stop_all (\<lambda>k. 0) example_started) = None
   \<and> flushes (since example_started (snd (stop_all (\<lambda>k. 0) example_started))) = [ [example_event] ]
   \<and> delivered 0 (since example_started (snd (stop_all (\<lambda>k. 0) example_started))) = [example_event]
   \<and> delivered 1 (since example_started (snd (stop_all (\<lambda>k. 0) example_started))) = [example_event]
   \<and> event_queue (snd (stop_all (\<lambda>k. 0) example_started)) = []
   \<and> st_queue_size (get_status (snd (stop_all (\<lambda>k. 0) example_started))) = 0"
  using stop_all_final_flush [of example_started "\<lambda>k. 0"]
  by (auto simp: example_started_fields less_Suc_eq all_conj_distrib simp del: handler_events.simps)

subsection \<open>Registration\<close>

text \<open>
  Claim C10. When \<open>register_listener\<close> is called with \<open>auto_setup\<close> for a name that is
  not registered and \<open>setup\<close> raises, the exception reaches the caller while the
  listener stays in the registry under that name: registering the name again fails as
  a duplicate and changes nothing.
\<close>

theorem register_listener_keeps_failed_listener:
  assumes "map_of (listeners s) name = None" and "l_setup listener = Some e"
  shows "fst (register_listener name listener True s) = Some e
       \<and> listeners (snd (register_listener name listener True s)) = listeners s @ [(name, listener)]
       \<and> map_of (listeners (snd (register_listener name listener True s))) name = Some listener
       \<and> register_listener name other auto (snd (register_listener name listener True s))
           = (Some (CDCError (''Listener '' @ [CHR 0x27] @ name @ [CHR 0x27] @ '' already registered'')),
              snd (register_listener name listener True s))"
proof -
  have r: "register_listener name listener True s
             = (Some e, emit (ListenerSetup name) (s\<lparr>listeners := listeners s @ [(name, listener)]\<rparr>))"
    using assms by (simp add: register_listener_def Let_def)
  have m: "([name \<mapsto> listener] ++ map_of (listeners s)) name = Some listener"
    using assms(1) by (simp add: map_add_def)
  have dup: "register_listener name other auto
               (emit (ListenerSetup name) (s\<lparr>listeners := listeners s @ [(name, listener)]\<rparr>))
             = (Some (CDCError (''Listener '' @ [CHR 0x27] @ name @ [CHR 0x27] @ '' already registered'')),
                emit (ListenerSetup name) (s\<lparr>listeners := listeners s @ [(name, listener)]\<rparr>))"
    by (simp add: register_listener_def m)
  show ?thesis
    by (simp add: r dup m)
qed

theorem register_listener_keeps_failed_listener_witness:
  "fst (register_listener ''pg'' (example_source True) True example_manager)
     = Some (Raised ''wal_level must be logical'')
   \<and> listeners (snd (register_listener ''pg'' (example_source True) True example_manager))
     = [(''pg'', example_source True)]
   \<and> fst (register_listener ''pg'' (example_source False) True
            (snd (register_listener ''pg'' (example_source True) True example_manager)))
     = Some (CDCError ''Listener 'pg' already registered'')"
proof -
  have l: "listeners example_manager = []"
    by (simp add: example_manager_def add_handler_def init_manager_def)
  have s: "l_setup (example_source True) = Some (Raised ''wal_level must be logical'')"
    by (simp add: example_source_def)
  show ?thesis
    using register_listener_keeps_failed_listener
      [of example_manager "''pg''" "example_source True" "Raised ''wal_level must be logical''"
          "example_source False" True]
    by (simp add: l s)
qed

subsection \<open>Locks during a flush\<close>

lemma batch_processor_step_due:
  assumes "batch_timeout s \<le> current_time - last_process_time" and "event_queue s \<noteq> []"
  shows "trace (snd (snd (batch_processor_step clock current_time last_process_time s)))
           = trace s @ [Acquire QueueLock]
             @ ProcessBatch (event_queue s) # batch_actions (event_queue s) 0 (handlers s)
             @ [Release QueueLock]"
    and "event_queue (snd (snd (batch_processor_step clock current_time last_process_time s))) = []"
  using assms by (simp_all add: batch_processor_step_def Let_def trace_process_batch)

text \<open>
  Claim C1, evaluated. In the example manager (batch size 2, two handlers) the second
  event triggers a flush on the ingesting thread, and a due turn of the flush thread
  flushes a queue of one event: in both, each call of \<open>handle_batch\<close> is made with the
  queue lock held. The metrics lock is not held then.
\<close>

theorem flush_holds_queue_lock_over_handlers:
  "locks_at_handle_batch []
     (since (snd (handle_change (\<lambda>k. 0) example_event example_manager))
        (snd (handle_change (\<lambda>k. 0) example_event
                (snd (handle_change (\<lambda>k. 0) example_event example_manager)))))
     = [ [QueueLock], [QueueLock] ]
   \<and> locks_at_handle_batch []
     (since example_started (snd (snd (batch_processor_step (\<lambda>k. 0) 10 0 example_started))))
     = [ [QueueLock], [QueueLock] ]"
proof -
  let ?s = "snd (handle_change (\<lambda>k. 0) example_event example_manager)"
  have a: "locks_at_handle_batch []
             (since ?s (snd (handle_change (\<lambda>k. 0) example_event ?s)))
             = [ [QueueLock], [QueueLock] ]"
    using handle_change_batching(1) [OF example_manager_one_event(1), of "\<lambda>k. 0" example_event]
    by (simp add: since_def example_manager_one_event del: handler_events.simps)
  have b: "locks_at_handle_batch []
             (since example_started (snd (snd (batch_processor_step (\<lambda>k. 0) 10 0 example_started))))
             = [ [QueueLock], [QueueLock] ]"
    using batch_processor_step_due(1) [of example_started 10 0 "\<lambda>k. 0"]
    by (simp add: since_def example_started_fields del: handler_events.simps)
  from a b show ?thesis by blast
qed

subsection \<open>Truncate in the graph-sync handler\<close>

lemma graph_handle_batch_truncate_only:
  assumes "\<forall>event \<in> set events. operation event = TRUNCATE"
  shows "graph_handle_batch exec self events g = (None, g)"
  using assms by (simp add: graph_handle_batch_def filter_empty_conv)

text \<open>
  Claim C2, evaluated. The handler for \<open>Patient\<close> accepts a Truncate event on
  \<open>patients\<close>. Its single-event entry point issues the statement that removes every
  \<open>Patient\<close> node; its batch entry point, given the same event, makes no call on the
  graph store, whose content stays as it was.
\<close>

theorem graph_handle_batch_ignores_truncate:
  "graph_can_handle example_graph_handler truncate_patients = Inr True
   \<and> graph_handle_change exec example_graph_handler truncate_patients g
       = exec (ExecuteQuery ''MATCH (n:Patient) DETACH DELETE n'' None) g
   \<and> graph_handle_batch exec example_graph_handler [truncate_patients] g = (None, g)"
proof -
  have t: "table truncate_patients = JStr ''patients''" "operation truncate_patients = TRUNCATE"
    by (simp_all add: truncate_patients_def example_event_def)
  have l: "table_to_node_type example_graph_handler ''patients''
             = Some \<lparr>nt_label = ''Patient'',
                     nt_properties = [\<lparr>prop_name = ''id''\<rparr>, \<lparr>prop_name = ''name''\<rparr>],
                     nt_source_table = Some ''patients'', nt_primary_key = Some ''id''\<rparr>"
    by (simp add: example_graph_handler_def init_graph_sync_handler_def build_table_to_node_type_def)
  show ?thesis
    by (simp add: graph_can_handle_def graph_handle_change_def handle_truncate_def t l
        truncate_query_def graph_handle_batch_truncate_only)
qed

end
